theory Spec2Isabelle
  imports Main "HOL-Library.Sublist" "HOL-Library.Word"
begin

section \<open>JavaScript values and strings\<close>

text \<open>
  A JavaScript string is a sequence of UTF-16 code units: \<^verbatim>\<open>slice\<close>, \<^verbatim>\<open>split\<close>,
  \<^verbatim>\<open>replace\<close>, \<^verbatim>\<open>trim\<close> and a regular expression without the \<^verbatim>\<open>u\<close> flag all
  work on code units. \<open>str\<close> is the string of an ASCII literal.
\<close>

type_synonym unit16 = "16 word"

type_synonym jsstring = "unit16 list"

definition str :: "string \<Rightarrow> jsstring" where
  "str s = map of_char s"

text \<open>
  A JavaScript value that may be \<^verbatim>\<open>undefined\<close> or \<^verbatim>\<open>null\<close>. The store's reads
  return \<^verbatim>\<open>undefined\<close> when there is no row (or no open database handle) and
  \<^verbatim>\<open>null\<close> for an SQL NULL column.
\<close>

datatype 'a js = Undefined | Null | Val 'a

text \<open>What an exception of the source is, as a value.\<close>

datatype error =
  SyntaxError          \<comment> \<open>\<^verbatim>\<open>JSON.parse\<close> of a text that is not JSON\<close>
  | TypeError          \<comment> \<open>a property read of null or undefined, an invalid URL\<close>
  | KeyRequiredError   \<comment> \<open>the plain Error \<^verbatim>\<open>ERR_CRYPTO_SIGN_KEY_REQUIRED\<close> of \<^verbatim>\<open>signer.sign\<close> without a key\<close>
  | SignError          \<comment> \<open>\<^verbatim>\<open>signer.sign\<close> rejected the key\<close>
  | NetworkError       \<comment> \<open>\<^verbatim>\<open>fetch\<close> or the read of its body failed\<close>

text \<open>Template interpolation \<^verbatim>\<open>${x}\<close> of a string that may be undefined or null.\<close>

definition js_to_string :: "jsstring js \<Rightarrow> jsstring" where
  "js_to_string x = (case x of Undefined \<Rightarrow> str ''undefined'' | Null \<Rightarrow> str ''null'' | Val s \<Rightarrow> s)"

text \<open>
  \<^verbatim>\<open>String.prototype.trim\<close> removes white space and line terminators at both ends. The
  white space of ECMAScript is TAB, VT, FF, U+FEFF and the space separators (SPACE,
  U+00A0, U+1680, U+2000 to U+200A, U+202F, U+205F, U+3000); its line terminators are
  LF, CR, U+2028 and U+2029.
\<close>

definition is_line_terminator :: "unit16 \<Rightarrow> bool" where
  "is_line_terminator c = (c \<in> set [0x000A, 0x000D, 0x2028, 0x2029])"

definition is_ws :: "unit16 \<Rightarrow> bool" where
  "is_ws c =
     (c \<in> set [0x0009, 0x000B, 0x000C, 0xFEFF, 0x0020, 0x00A0, 0x1680, 0x202F, 0x205F, 0x3000]
      \<or> (0x2000 \<le> c \<and> c \<le> 0x200A)
      \<or> is_line_terminator c)"

definition js_trim :: "jsstring \<Rightarrow> jsstring" where
  "js_trim s = rev (dropWhile is_ws (rev (dropWhile is_ws s)))"

text \<open>
  \<^verbatim>\<open>s.replace(pat, rep)\<close> with a string pattern: only the first occurrence of
  \<^verbatim>\<open>pat\<close> is replaced (the replacements used in the source contain no \<^verbatim>\<open>$\<close>).
\<close>

fun replace_first :: "jsstring \<Rightarrow> jsstring \<Rightarrow> jsstring \<Rightarrow> jsstring" where
  "replace_first pat rep [] = (if pat = [] then rep else [])"
| "replace_first pat rep (c # cs) =
     (if prefix pat (c # cs) then rep @ drop (length pat) (c # cs)
      else c # replace_first pat rep cs)"

text \<open>\<^verbatim>\<open>s.split(sep)\<close> with a one-character separator: always at least one piece.\<close>

fun split_on :: "unit16 \<Rightarrow> jsstring \<Rightarrow> jsstring list" where
  "split_on sep [] = [[]]"
| "split_on sep (c # cs) =
     (if c = sep then [] # split_on sep cs
      else (case split_on sep cs of
              [] \<Rightarrow> [[c]]
            | w # ws \<Rightarrow> (c # w) # ws))"

text \<open>\<^verbatim>\<open>xs.join(sep)\<close>.\<close>

fun join_with :: "jsstring \<Rightarrow> jsstring list \<Rightarrow> jsstring" where
  "join_with sep [] = []"
| "join_with sep [w] = w"
| "join_with sep (w # v # ws) = w @ sep @ join_with sep (v # ws)"

text \<open>
  \<^verbatim>\<open>crypto.randomBytes(16).toString("hex")\<close>: the 16 random bytes are a 128-bit word,
  rendered as 32 lower-case hexadecimal digits, most significant first.
\<close>

definition hex_digit :: "nat \<Rightarrow> unit16" where
  "hex_digit n = str ''0123456789abcdef'' ! n"

definition toString_hex :: "128 word \<Rightarrow> jsstring" where
  "toString_hex w = map (\<lambda>i. hex_digit (unat (take_bit 4 (drop_bit (4 * (31 - i)) w)))) [0..<32]"

definition is_hex_char :: "unit16 \<Rightarrow> bool" where
  "is_hex_char c = (c \<in> set (str ''0123456789abcdef''))"

text \<open>\<^verbatim>\<open>String(n)\<close> of a non-negative integer.\<close>

fun dec :: "nat \<Rightarrow> jsstring" where
  "dec n = (if n < 10 then [str ''0123456789'' ! n] else dec (n div 10) @ [str ''0123456789'' ! (n mod 10)])"

declare dec.simps [simp del]

section \<open>The Activity Builder: notes\<close>

text \<open>A bookmark record; a column that may be NULL is an option.\<close>

record bookmark =
  b_id :: int
  b_url :: jsstring
  b_title :: "jsstring option"
  b_description :: "jsstring option"
  b_tags :: "jsstring option"

record hashtag =
  h_type :: jsstring
  h_href :: jsstring
  h_name :: jsstring

record note_object =
  n_context :: jsstring
  n_id :: jsstring
  n_type :: jsstring
  n_published :: jsstring
  n_attributedTo :: jsstring
  n_content :: jsstring
  n_to :: "jsstring list"
  n_tag :: "hashtag list"

text \<open>
  Modelled from the spec: \<^verbatim>\<open>replaceEmptyText\<close> is imported from \<^verbatim>\<open>util.js\<close>, which is
  not among the sources. The spec says the title is used, "falling back to the URL text
  if title is blank": the current value, or the default when the current value is absent
  or consists of white space only.
\<close>

definition replaceEmptyText :: "jsstring option \<Rightarrow> jsstring \<Rightarrow> jsstring" where
  "replaceEmptyText currentValue defaultValue =
     (case currentValue of
        None \<Rightarrow> defaultValue
      | Some t \<Rightarrow> if js_trim t = [] then defaultValue else t)"

text \<open>
  \<^verbatim>\<open>createNoteObject(bookmark, account, domain)\<close>. The two values the function draws
  from its environment are arguments: \<open>guidNote\<close> is the result of
  \<^verbatim>\<open>crypto.randomBytes(16)\<close> and \<open>d\<close> is \<^verbatim>\<open>new Date().toISOString()\<close>. The local
  \<open>linkedTags\<close> is computed and never used, as in the source.
\<close>

definition createNoteObject :: "128 word \<Rightarrow> jsstring \<Rightarrow> bookmark \<Rightarrow> jsstring \<Rightarrow> jsstring \<Rightarrow> note_object" where
  "createNoteObject guidNote d bookmark account domain =
     (let linkedTags =
            map_option (\<lambda>tags. join_with (str '' '')
              (map (\<lambda>tag. (str ''<a href=\"https://'') @ domain @ str ''/tagged/'' @ drop 1 tag
                            @ str ''\" class=\"mention hashtag\" rel=\"tag\">'' @ tag @ str ''</a>'')
                   (split_on 0x20 tags)))
              (b_tags bookmark);
          noteMessage = \<lparr>
            n_context = str ''https://www.w3.org/ns/activitystreams'',
            n_id = str ''https://'' @ domain @ str ''/m/'' @ toString_hex guidNote,
            n_type = str ''Note'',
            n_published = d,
            n_attributedTo = str ''https://'' @ domain @ str ''/u/'' @ account,
            n_content = str ''<strong><a href=\"'' @ b_url bookmark
              @ str ''\" rel=\"nofollow noopener noreferrer\" target=\"_blank\">''
              @ replaceEmptyText (b_title bookmark) (b_url bookmark)
              @ str ''</a></strong><br/>''
              @ (case b_description bookmark of
                   None \<Rightarrow> []
                 | Some s \<Rightarrow> replace_first [0x0A] (str ''<br/>'') (js_trim s)),
            n_to = [str ''https://'' @ domain @ str ''/u/'' @ account @ str ''/followers/'',
                    str ''https://www.w3.org/ns/activitystreams#Public''],
            n_tag = [] \<rparr>
      in case b_tags bookmark of
           None \<Rightarrow> noteMessage
         | Some tags \<Rightarrow>
             noteMessage \<lparr> n_tag :=
               map (\<lambda>tag. \<lparr> h_type = str ''Hashtag'',
                            h_href = str ''https://'' @ domain @ str ''/tagged/'' @ drop 1 tag,
                            h_name = tag \<rparr>)
                   (split_on 0x20 tags) \<rparr>)"

section \<open>The store\<close>

text \<open>
  The SQLite tables of \<^verbatim>\<open>activitypub.db\<close>. A TEXT column that holds JSON is represented
  by the value its text denotes (the writers of the repository store
  \<^verbatim>\<open>JSON.stringify\<close> of that value), and a column that is NULL by \<open>None\<close>: the
  \<^verbatim>\<open>followers\<close> and \<^verbatim>\<open>following\<close> columns hold arrays of actor URIs, the
  \<^verbatim>\<open>actor\<close> column an object, a message row a note or a Follow activity.
\<close>

datatype json =
  JNull | JBool bool | JNumber int | JString jsstring | JArray "json list"
  | JObject "(jsstring \<times> json) list"

record follow_message =
  f_context :: jsstring
  f_id :: jsstring
  f_type :: jsstring
  f_actor :: jsstring
  f_object :: jsstring

datatype stored_message = StoredNote note_object | StoredFollow follow_message

record account_row =
  acc_privkey :: "jsstring option"
  acc_actor :: "(jsstring \<times> json) list option"
  acc_followers :: "jsstring list option"
  acc_following :: "jsstring list option"

record message_row =
  m_guid :: jsstring
  m_message :: "stored_message option"
  m_bookmark_id :: "int option"

record permission_row =
  p_bookmark_id :: int
  p_allowed :: "jsstring option"
  p_blocked :: "jsstring option"

record apdb =
  accounts :: "account_row list"
  messages :: "message_row list"
  permissions :: "permission_row list"

text \<open>
  The module-level handle \<^verbatim>\<open>db\<close> is \<open>None\<close> until the database has been opened:
  every access is written \<^verbatim>\<open>db?.get\<close>, \<^verbatim>\<open>db?.run\<close> or \<^verbatim>\<open>db?.all\<close>.
\<close>

type_synonym handle = "apdb option"

text \<open>\<^verbatim>\<open>select ... from accounts limit 1\<close>: the first account row, if any.\<close>

definition first_account :: "handle \<Rightarrow> account_row option" where
  "first_account db =
     (case db of
        None \<Rightarrow> None
      | Some s \<Rightarrow> (case accounts s of [] \<Rightarrow> None | r # _ \<Rightarrow> Some r))"

text \<open>\<^verbatim>\<open>result?.column\<close>: undefined without a row, null for a NULL column.\<close>

definition column :: "('r \<Rightarrow> 'a option) \<Rightarrow> 'r option \<Rightarrow> 'a js" where
  "column col result =
     (case result of
        None \<Rightarrow> Undefined
      | Some r \<Rightarrow> (case col r of None \<Rightarrow> Null | Some v \<Rightarrow> Val v))"

definition getFollowers :: "handle \<Rightarrow> jsstring list js" where
  "getFollowers db = column acc_followers (first_account db)"

definition getFollowing :: "handle \<Rightarrow> jsstring list js" where
  "getFollowing db = column acc_following (first_account db)"


definition getPrivateKey :: "jsstring \<Rightarrow> handle \<Rightarrow> jsstring js" where
  "getPrivateKey name db = column acc_privkey (first_account db)"

text \<open>\<^verbatim>\<open>select guid from messages where bookmark_id = ?\<close>: the first matching row.\<close>

definition getGuidForBookmarkId :: "int \<Rightarrow> handle \<Rightarrow> jsstring js" where
  "getGuidForBookmarkId i db =
     (case db of
        None \<Rightarrow> Undefined
      | Some s \<Rightarrow>
          (case find (\<lambda>r. m_bookmark_id r = Some i) (messages s) of
             None \<Rightarrow> Undefined
           | Some r \<Rightarrow> Val (m_guid r)))"

definition findMessageGuid :: "int \<Rightarrow> handle \<Rightarrow> jsstring js" where
  "findMessageGuid bookmarkId db =
     (case db of
        None \<Rightarrow> Undefined
      | Some s \<Rightarrow>
          (case find (\<lambda>r. m_bookmark_id r = Some bookmarkId) (messages s) of
             None \<Rightarrow> Undefined
           | Some r \<Rightarrow> Val (m_guid r)))"

text \<open>
  \<^verbatim>\<open>delete from messages where guid = ?\<close>. An undefined or null parameter is bound as
  SQL NULL, and \<^verbatim>\<open>guid = NULL\<close> holds of no row: nothing is deleted.
\<close>

definition deleteMessage :: "jsstring js \<Rightarrow> handle \<Rightarrow> handle" where
  "deleteMessage guid db =
     (case guid of
        Val g \<Rightarrow> map_option (\<lambda>s. s\<lparr>messages := filter (\<lambda>r. m_guid r \<noteq> g) (messages s)\<rparr>) db
      | _ \<Rightarrow> db)"

definition getPermissionsForBookmark :: "int \<Rightarrow> handle \<Rightarrow> permission_row option" where
  "getPermissionsForBookmark i db =
     (case db of
        None \<Rightarrow> None
      | Some s \<Rightarrow> find (\<lambda>r. p_bookmark_id r = i) (permissions s))"

definition getGlobalPermissions :: "handle \<Rightarrow> permission_row option" where
  "getGlobalPermissions db =
     (case db of
        None \<Rightarrow> None
      | Some s \<Rightarrow> find (\<lambda>r. p_bookmark_id r = 0) (permissions s))"

text \<open>
  \<^verbatim>\<open>insert or replace into permissions\<close>: \<^verbatim>\<open>bookmark_id\<close> is UNIQUE, so a row with
  the same id is replaced.
\<close>

definition setPermissionsForBookmark :: "int \<Rightarrow> jsstring option \<Rightarrow> jsstring option \<Rightarrow> handle \<Rightarrow> handle" where
  "setPermissionsForBookmark i allowed blocked db =
     map_option (\<lambda>s. s\<lparr>permissions :=
         filter (\<lambda>r. p_bookmark_id r \<noteq> i) (permissions s)
         @ [\<lparr>p_bookmark_id = i, p_allowed = allowed, p_blocked = blocked\<rparr>]\<rparr>) db"

definition setGlobalPermissions :: "jsstring option \<Rightarrow> jsstring option \<Rightarrow> handle \<Rightarrow> handle" where
  "setGlobalPermissions allowed blocked db = setPermissionsForBookmark 0 allowed blocked db"

text \<open>\<^verbatim>\<open>insert or replace into messages\<close>: \<^verbatim>\<open>guid\<close> is the primary key.\<close>

definition insertMessage :: "jsstring \<Rightarrow> int option \<Rightarrow> stored_message \<Rightarrow> handle \<Rightarrow> handle" where
  "insertMessage guid bookmarkId json db =
     map_option (\<lambda>s. s\<lparr>messages :=
         filter (\<lambda>r. m_guid r \<noteq> guid) (messages s)
         @ [\<lparr>m_guid = guid, m_message = Some json, m_bookmark_id = bookmarkId\<rparr>]\<rparr>) db"

text \<open>
  \<^verbatim>\<open>select * from messages where message like '%object%'\<close>. Whether the stored text of
  a message contains the pattern is SQLite's to say: \<open>like\<close> is a parameter. A NULL
  message matches no pattern.
\<close>

definition findMessage :: "(jsstring \<Rightarrow> stored_message \<Rightarrow> bool) \<Rightarrow> jsstring \<Rightarrow> handle \<Rightarrow> message_row list js" where
  "findMessage like object db =
     (case db of
        None \<Rightarrow> Undefined
      | Some s \<Rightarrow>
          Val (filter (\<lambda>r. case m_message r of None \<Rightarrow> False | Some m \<Rightarrow> like object m)
                 (messages s)))"

section \<open>The Activity Builder: activities\<close>

datatype ld_context = ContextOne jsstring | ContextMany "jsstring list"

record tombstone =
  t_type :: jsstring
  t_id :: jsstring

text \<open>
  The \<^verbatim>\<open>object\<close> of an activity: a Note, the permalink of one, a Tombstone, or
  \<^verbatim>\<open>undefined\<close>.
\<close>

datatype activity_object =
  ObjNote note_object | ObjUri jsstring | ObjTombstone tombstone | ObjUndefined

text \<open>An activity; \<open>None\<close> is a property the object literal does not have.\<close>

record activity =
  a_context :: ld_context
  a_id :: "jsstring option"
  a_summary :: "jsstring option"
  a_type :: jsstring
  a_actor :: jsstring
  a_to :: "jsstring list option"
  a_object :: activity_object

text \<open>
  \<^verbatim>\<open>urlString.match(/(?:\/m\/)([a-zA-Z0-9+/]+)/)[1]\<close>: the leftmost \<^verbatim>\<open>/m/\<close> that is
  followed by a character of the class, and the longest run of such characters after it.
  Without a match, \<^verbatim>\<open>match\<close> returns null and the index raises a TypeError.
\<close>

definition is_guid_char :: "unit16 \<Rightarrow> bool" where
  "is_guid_char c =
     ((0x61 \<le> c \<and> c \<le> 0x7A) \<or> (0x41 \<le> c \<and> c \<le> 0x5A) \<or> (0x30 \<le> c \<and> c \<le> 0x39)
      \<or> c = 0x2B \<or> c = 0x2F)"

fun permalink_match :: "jsstring \<Rightarrow> jsstring option" where
  "permalink_match [] = None"
| "permalink_match (c # cs) =
     (if prefix (str ''/m/'') (c # cs) \<and> takeWhile is_guid_char (drop 3 (c # cs)) \<noteq> []
      then Some (takeWhile is_guid_char (drop 3 (c # cs)))
      else permalink_match cs)"

definition getGuidFromPermalink :: "jsstring \<Rightarrow> error + jsstring" where
  "getGuidFromPermalink urlString =
     (case permalink_match urlString of None \<Rightarrow> Inl TypeError | Some g \<Rightarrow> Inr g)"

text \<open>
  \<^verbatim>\<open>createMessage(noteObject, bookmarkId, account, domain, db)\<close>; \<open>guidCreate\<close> is the
  result of \<^verbatim>\<open>crypto.randomBytes(16)\<close>. The insert is started before the function
  returns; the model performs it at once.
\<close>

definition createMessage ::
  "128 word \<Rightarrow> note_object \<Rightarrow> int \<Rightarrow> jsstring \<Rightarrow> jsstring \<Rightarrow> handle \<Rightarrow> error + (activity \<times> handle)" where
  "createMessage guidCreate noteObject bookmarkId account domain db =
     (let createMessage = \<lparr>
            a_context = ContextMany [str ''https://www.w3.org/ns/activitystreams'',
                                     str ''https://w3id.org/security/v1''],
            a_id = Some (str ''https://'' @ domain @ str ''/m/'' @ toString_hex guidCreate),
            a_summary = None,
            a_type = str ''Create'',
            a_actor = str ''https://'' @ domain @ str ''/u/'' @ account,
            a_to = Some [str ''https://'' @ domain @ str ''/u/'' @ account @ str ''/followers/'',
                         str ''https://www.w3.org/ns/activitystreams#Public''],
            a_object = ObjNote noteObject \<rparr>
      in case getGuidFromPermalink (n_id noteObject) of
           Inl e \<Rightarrow> Inl e
         | Inr guid \<Rightarrow>
             Inr (createMessage, insertMessage guid (Some bookmarkId) (StoredNote noteObject) db))"

text \<open>
  \<^verbatim>\<open>createUpdateMessage(bookmark, account, domain, db)\<close>. When no guid is stored for
  the bookmark a new note is built (\<open>guidNote\<close>, \<open>d\<close>) and persisted through
  \<^verbatim>\<open>createMessage\<close> (\<open>guidCreate\<close>), whose activity is dropped.
\<close>

definition createUpdateMessage ::
  "128 word \<Rightarrow> jsstring \<Rightarrow> 128 word \<Rightarrow> bookmark \<Rightarrow> jsstring \<Rightarrow> jsstring \<Rightarrow> handle
     \<Rightarrow> error + (activity \<times> handle)" where
  "createUpdateMessage guidNote d guidCreate bookmark account domain db =
     (let updateMessage = (\<lambda>note. \<lparr>
            a_context = ContextMany [str ''https://www.w3.org/ns/activitystreams'',
                                     str ''https://w3id.org/security/v1''],
            a_id = None,
            a_summary = Some (account @ str '' updated the bookmark''),
            a_type = str ''Create'',
            a_actor = str ''https://'' @ domain @ str ''/u/'' @ account,
            a_to = None,
            a_object = note \<rparr>)
      in case getGuidForBookmarkId (b_id bookmark) db of
           Val guid \<Rightarrow> Inr (updateMessage (ObjUri (str ''https://'' @ domain @ str ''/m/'' @ guid)), db)
         | Null \<Rightarrow> Inr (updateMessage (ObjUri (str ''https://'' @ domain @ str ''/m/null'')), db)
         | Undefined \<Rightarrow>
             (let note = createNoteObject guidNote d bookmark account domain
              in case createMessage guidCreate note (b_id bookmark) account domain db of
                   Inl e \<Rightarrow> Inl e
                 | Inr (_, db') \<Rightarrow> Inr (updateMessage (ObjNote note), db')))"

text \<open>
  \<^verbatim>\<open>createDeleteMessage(bookmark, account, domain, db)\<close>. The guid is interpolated into
  the id as it is, also when it is undefined.
\<close>

definition createDeleteMessage :: "bookmark \<Rightarrow> jsstring \<Rightarrow> jsstring \<Rightarrow> handle \<Rightarrow> activity \<times> handle" where
  "createDeleteMessage bookmark account domain db =
     (let guid = findMessageGuid (b_id bookmark) db;
          db' = deleteMessage guid db;
          deleteMessage = \<lparr>
            a_context = ContextMany [str ''https://www.w3.org/ns/activitystreams'',
                                     str ''https://w3id.org/security/v1''],
            a_id = Some (str ''https://'' @ domain @ str ''/m/'' @ js_to_string guid),
            a_summary = None,
            a_type = str ''Delete'',
            a_actor = str ''https://'' @ domain @ str ''/u/'' @ account,
            a_to = Some [str ''https://'' @ domain @ str ''/u/'' @ account @ str ''/followers/'',
                         str ''https://www.w3.org/ns/activitystreams#Public''],
            a_object = ObjTombstone \<lparr> t_type = str ''Tombstone'',
                                       t_id = str ''https://'' @ domain @ str ''/m/'' @ js_to_string guid \<rparr> \<rparr>
      in (deleteMessage, db'))"

text \<open>\<^verbatim>\<open>createFollowMessage(account, domain, target, db)\<close>.\<close>

definition createFollowMessage ::
  "128 word \<Rightarrow> jsstring \<Rightarrow> jsstring \<Rightarrow> jsstring \<Rightarrow> handle \<Rightarrow> follow_message \<times> handle" where
  "createFollowMessage guidBytes account domain target db =
     (let guid = toString_hex guidBytes;
          followMessage = \<lparr>
            f_context = str ''https://www.w3.org/ns/activitystreams'',
            f_id = guid,
            f_type = str ''Follow'',
            f_actor = str ''https://'' @ domain @ str ''/u/'' @ account,
            f_object = target \<rparr>
      in (followMessage, insertMessage guid None (StoredFollow followMessage) db))"

text \<open>
  The callback of the filter in \<^verbatim>\<open>createUnfollowMessage\<close>:
  \<^verbatim>\<open>JSON.parse(row.message || "{}")\<close> is a Follow whose object is the target. A note
  has no \<^verbatim>\<open>object\<close> property, and neither has \<^verbatim>\<open>{}\<close>.
\<close>

definition is_follow_of :: "jsstring \<Rightarrow> message_row \<Rightarrow> bool" where
  "is_follow_of target row =
     (case m_message row of
        None \<Rightarrow> False
      | Some (StoredNote n) \<Rightarrow> False
      | Some (StoredFollow f) \<Rightarrow> f_type f = str ''Follow'' \<and> f_object f = target)"

text \<open>
  \<^verbatim>\<open>xs.slice(-1)\<close> is the array of the last element, and \<^verbatim>\<open>.message\<close> of an array
  is a property no array has: the read yields \<^verbatim>\<open>undefined\<close> whatever the array holds.
\<close>

definition slice_last :: "'a list \<Rightarrow> 'a list" where
  "slice_last xs = drop (length xs - 1) xs"

definition array_message :: "message_row list \<Rightarrow> activity_object" where
  "array_message rows = ObjUndefined"

datatype log_entry =
  LogText jsstring
  | LogResult "message_row list js"
  | LogSending activity
  | LogStatus nat
  | LogBody jsstring
  | LogError error
  | LogStacktrace error

text \<open>
  \<^verbatim>\<open>createUnfollowMessage(account, domain, target, db)\<close>: the activity, or \<open>None\<close> for
  the \<^verbatim>\<open>null\<close> it returns, with what it logs.
\<close>

definition createUnfollowMessage ::
  "(jsstring \<Rightarrow> stored_message \<Rightarrow> bool) \<Rightarrow> 128 word \<Rightarrow> jsstring \<Rightarrow> jsstring \<Rightarrow> jsstring \<Rightarrow> handle
     \<Rightarrow> activity option \<times> log_entry list" where
  "createUnfollowMessage like guidBytes account domain target db =
     (let undoGuid = toString_hex guidBytes;
          messageRows = findMessage like target db;
          followMessages = (case messageRows of
                              Val rows \<Rightarrow> Val (filter (is_follow_of target) rows)
                            | _ \<Rightarrow> Undefined)
      in case followMessages of
           Val (r # rs) \<Rightarrow>
             (Some \<lparr> a_context = ContextOne (str ''https://www.w3.org/ns/activitystreams''),
                     a_id = Some undoGuid,
                     a_summary = None,
                     a_type = str ''Undo'',
                     a_actor = domain @ str ''/u/'' @ account,
                     a_to = None,
                     a_object = array_message (slice_last (r # rs)) \<rparr>,
              [LogResult messageRows])
         | _ \<Rightarrow>
             (None,
              [LogResult messageRows,
               LogText (str ''tried to find a Follow record in order to unfollow, but failed'')]))"

section \<open>The Signer\<close>

record http_request =
  r_url :: jsstring
  r_headers :: "(jsstring \<times> jsstring) list"
  r_method :: jsstring
  r_body :: jsstring

text \<open>
  What \<^verbatim>\<open>signAndSend\<close> takes from the platform: \<^verbatim>\<open>JSON.stringify\<close> of the message,
  the base64 SHA-256 digest of a text, the base64 RSA-SHA256 signature of a text under a
  key (\<^verbatim>\<open>crypto.createSign("sha256")\<close>, which raises on a key it cannot use), the clock
  as \<^verbatim>\<open>new Date().toUTCString()\<close>, and \<^verbatim>\<open>fetch\<close> with the read of the response
  body, which yields the status and the body, or raises.
\<close>

record net =
  JSON_stringify :: "activity \<Rightarrow> jsstring"
  sha256_base64 :: "jsstring \<Rightarrow> jsstring"
  sign_base64 :: "jsstring \<Rightarrow> jsstring \<Rightarrow> error + jsstring"
  toUTCString :: jsstring
  fetch :: "http_request \<Rightarrow> error + (nat \<times> jsstring)"

text \<open>
  What one call did: the network calls it attempted, what it logged, and the error it
  raised to its caller (its promise is rejected), if any.
\<close>

record sent =
  s_requests :: "http_request list"
  s_log :: "log_entry list"
  s_raised :: "error option"

definition stringToSign :: "jsstring \<Rightarrow> jsstring \<Rightarrow> jsstring \<Rightarrow> jsstring \<Rightarrow> jsstring" where
  "stringToSign inboxFragment targetDomain date digest =
     str ''(request-target): post '' @ inboxFragment @ [0x0A]
     @ str ''host: '' @ targetDomain @ [0x0A]
     @ str ''date: '' @ date @ [0x0A]
     @ str ''digest: SHA-256='' @ digest"

text \<open>
  \<^verbatim>\<open>signAndSend(message, name, domain, db, targetDomain, inbox)\<close>. Only an undefined
  key is tested for; a null key reaches \<^verbatim>\<open>signer.sign\<close>, which raises its error for a
  missing key. The digest and the signature are computed before the \<^verbatim>\<open>try\<close> block, the
  \<^verbatim>\<open>fetch\<close> and the read of the body inside it.
\<close>

definition signAndSend ::
  "net \<Rightarrow> activity \<Rightarrow> jsstring \<Rightarrow> jsstring \<Rightarrow> handle \<Rightarrow> jsstring \<Rightarrow> jsstring \<Rightarrow> sent" where
  "signAndSend N message name domain db targetDomain inbox =
     (let inboxFragment = replace_first (str ''https://'' @ targetDomain) [] inbox;
          privkey = getPrivateKey (name @ str ''@'' @ domain) db
      in case privkey of
           Undefined \<Rightarrow>
             \<lparr> s_requests = [],
               s_log = [LogText (str ''No private key found for '' @ name @ str ''.'')],
               s_raised = None \<rparr>
         | _ \<Rightarrow>
             (let digest = sha256_base64 N (JSON_stringify N message);
                  d = toUTCString N;
                  signed = (case privkey of
                              Val key \<Rightarrow> sign_base64 N key (stringToSign inboxFragment targetDomain d digest)
                            | _ \<Rightarrow> Inl KeyRequiredError)
              in case signed of
                   Inl e \<Rightarrow> \<lparr> s_requests = [], s_log = [], s_raised = Some e \<rparr>
                 | Inr signature_b64 \<Rightarrow>
                     (let algorithm = str ''rsa-sha256'';
                          header = str ''keyId=\"https://'' @ domain @ str ''/u/'' @ name
                            @ str ''\",algorithm=\"'' @ algorithm
                            @ str ''\",headers=\"(request-target) host date digest\",signature=\"''
                            @ signature_b64 @ str ''\"'';
                          request = \<lparr>
                            r_url = inbox,
                            r_headers = [(str ''Host'', targetDomain),
                                         (str ''Date'', d),
                                         (str ''Digest'', str ''SHA-256='' @ digest),
                                         (str ''Signature'', header),
                                         (str ''Content-Type'', str ''application/json''),
                                         (str ''Accept'', str ''application/json'')],
                            r_method = str ''POST'',
                            r_body = JSON_stringify N message \<rparr>
                      in case fetch N request of
                           Inr (status, data) \<Rightarrow>
                             \<lparr> s_requests = [request],
                               s_log = [LogText (str ''Sent message to an inbox at '' @ targetDomain @ str ''!''),
                                        LogStatus status, LogBody data],
                               s_raised = None \<rparr>
                         | Inl e \<Rightarrow>
                             \<lparr> s_requests = [request],
                               s_log = [LogError e, LogStacktrace e],
                               s_raised = None \<rparr>)))"

section \<open>The Broadcaster\<close>

text \<open>
  What the broadcaster and the routes take from their environment:
  \<^verbatim>\<open>actorInfo.disabled\<close> and \<^verbatim>\<open>actorMatchesUsername\<close> of \<^verbatim>\<open>util.js\<close> (not among the
  sources), \<^verbatim>\<open>new URL(x).host\<close> (\<open>None\<close> when the constructor raises a TypeError
  for an invalid URL), the \<open>k\<close>-th result of \<^verbatim>\<open>crypto.randomBytes(16)\<close> and of
  \<^verbatim>\<open>new Date().toISOString()\<close> within one call, and the conversion of a string to a
  number (\<open>None\<close> for NaN).
\<close>

record world =
  disabled :: bool
  actorMatchesUsername :: "jsstring \<Rightarrow> jsstring js \<Rightarrow> bool"
  url_host :: "jsstring \<Rightarrow> jsstring option"
  randomBytes16 :: "nat \<Rightarrow> 128 word"
  toISOString :: "nat \<Rightarrow> jsstring"
  ToNumber :: "jsstring \<Rightarrow> int option"

text \<open>
  The regular expression \<^verbatim>\<open>/^@([^@]+)@(.+)$/\<close> against a whole entry: an \<^verbatim>\<open>@\<close>, one
  or more characters other than \<^verbatim>\<open>@\<close>, an \<^verbatim>\<open>@\<close>, and one or more characters that are
  no line terminators, up to the end.
\<close>

definition handle_regex :: "jsstring \<Rightarrow> bool" where
  "handle_regex s =
     (case s of
        [] \<Rightarrow> False
      | c # rest \<Rightarrow>
          c = 0x40
          \<and> takeWhile (\<lambda>x. x \<noteq> 0x40) rest \<noteq> []
          \<and> (case dropWhile (\<lambda>x. x \<noteq> 0x40) rest of
                [] \<Rightarrow> False
              | _ # host \<Rightarrow> host \<noteq> [] \<and> list_all (\<lambda>x. \<not> is_line_terminator x) host))"

text \<open>
  The blocklist as the source computes it. The optional chain ends in \<^verbatim>\<open>undefined\<close>,
  and the list is empty, when the bookmark has no permission row or its
  \<^verbatim>\<open>blocked\<close> is null. \<^verbatim>\<open>concat(undefined)\<close> appends the one element
  \<^verbatim>\<open>undefined\<close>. The filter keeps the entries for which \<^verbatim>\<open>!x?.match(...)\<close> holds:
  those that do not match the pattern, and \<^verbatim>\<open>undefined\<close>.
\<close>

definition blocklist_of :: "permission_row option \<Rightarrow> permission_row option \<Rightarrow> jsstring js list" where
  "blocklist_of bookmarkPermissions globalPermissions =
     (case bookmarkPermissions of
        None \<Rightarrow> []
      | Some bp \<Rightarrow>
          (case p_blocked bp of
             None \<Rightarrow> []
           | Some blocked \<Rightarrow>
               filter (\<lambda>x. \<not> (case x of Val e \<Rightarrow> handle_regex e | _ \<Rightarrow> False))
                 (map Val (split_on 0x0A blocked)
                  @ (case globalPermissions of
                       None \<Rightarrow> [Undefined]
                     | Some gp \<Rightarrow>
                         (case p_blocked gp of
                            None \<Rightarrow> [Undefined]
                          | Some gblocked \<Rightarrow> map Val (split_on 0x0A gblocked))))))"

text \<open>
  \<^verbatim>\<open>xs.forEach(f)\<close> calls \<open>f\<close> on every element and returns \<^verbatim>\<open>undefined\<close>;
  \<^verbatim>\<open>matches?.some((x) => x)\<close> of an undefined \<open>matches\<close> is \<^verbatim>\<open>undefined\<close>, and
  \<^verbatim>\<open>!undefined\<close> is true.
\<close>

definition forEach :: "('a \<Rightarrow> bool) \<Rightarrow> 'a list \<Rightarrow> bool list js" where
  "forEach f xs = Undefined"

definition optional_some :: "bool list js \<Rightarrow> bool js" where
  "optional_some matches = (case matches of Val bs \<Rightarrow> Val (list_ex (\<lambda>x. x) bs) | _ \<Rightarrow> Undefined)"

definition js_not :: "bool js \<Rightarrow> bool" where
  "js_not x = (case x of Val b \<Rightarrow> \<not> b | _ \<Rightarrow> True)"

definition filter_blocked :: "world \<Rightarrow> jsstring js list \<Rightarrow> jsstring list \<Rightarrow> jsstring list" where
  "filter_blocked W blocklist followers =
     filter (\<lambda>actor.
        let matches = forEach (\<lambda>username. actorMatchesUsername W actor username) blocklist
        in js_not (optional_some matches)) followers"

text \<open>One started call of \<^verbatim>\<open>signAndSend\<close>; the loop does not await it.\<close>

record delivery =
  d_message :: activity
  d_name :: jsstring
  d_domain :: jsstring
  d_targetDomain :: jsstring
  d_inbox :: jsstring

text \<open>
  The loop \<^verbatim>\<open>for (let follower of followers)\<close>: the calls it starts, and the TypeError
  of \<^verbatim>\<open>new URL(follower)\<close> that ends it, if any.
\<close>

fun deliver :: "world \<Rightarrow> activity \<Rightarrow> jsstring \<Rightarrow> jsstring \<Rightarrow> jsstring list \<Rightarrow> delivery list \<times> error option" where
  "deliver W message account domain [] = ([], None)"
| "deliver W message account domain (follower # rest) =
     (let inbox = follower @ str ''/inbox''
      in case url_host W follower of
           None \<Rightarrow> ([], Some TypeError)
         | Some targetDomain \<Rightarrow>
             (case deliver W message account domain rest of
                (ds, e) \<Rightarrow>
                  (\<lparr> d_message = message, d_name = account, d_domain = domain,
                     d_targetDomain = targetDomain, d_inbox = inbox \<rparr> # ds, e)))"

text \<open>
  What one broadcast did: the store after it, the deliveries it started, what it logged,
  and the error it raised to its caller, if any.
\<close>

record outcome =
  o_db :: handle
  o_sent :: "delivery list"
  o_log :: "log_entry list"
  o_raised :: "error option"

text \<open>
  \<^verbatim>\<open>broadcastMessage(bookmark, action, db, account, domain)\<close>. \<^verbatim>\<open>JSON.parse\<close> of an
  undefined follower value raises a SyntaxError, of a null one yields null. The result of
  \<^verbatim>\<open>followers.filter\<close> is not assigned: the loop runs over \<open>followers\<close>.
\<close>

definition broadcastMessage ::
  "world \<Rightarrow> bookmark \<Rightarrow> jsstring \<Rightarrow> handle \<Rightarrow> jsstring \<Rightarrow> jsstring \<Rightarrow> outcome" where
  "broadcastMessage W bookmark action db account domain =
     (if disabled W then \<lparr> o_db = db, o_sent = [], o_log = [], o_raised = None \<rparr>
      else case getFollowers db of
        Undefined \<Rightarrow> \<lparr> o_db = db, o_sent = [], o_log = [], o_raised = Some SyntaxError \<rparr>
      | Null \<Rightarrow>
          \<lparr> o_db = db, o_sent = [],
            o_log = [LogText (str ''No followers for account '' @ account @ str ''@'' @ domain)],
            o_raised = None \<rparr>
      | Val followers \<Rightarrow>
          (let bookmarkPermissions = getPermissionsForBookmark (b_id bookmark) db;
               globalPermissions = getGlobalPermissions db;
               blocklist = blocklist_of bookmarkPermissions globalPermissions;
               discarded = filter_blocked W blocklist followers;
               noteObject = createNoteObject (randomBytes16 W 0) (toISOString W 0) bookmark account domain;
               built =
                 (if action = str ''create'' then
                    map_sum id Some
                      (createMessage (randomBytes16 W 1) noteObject (b_id bookmark) account domain db)
                  else if action = str ''update'' then
                    map_sum id Some
                      (createUpdateMessage (randomBytes16 W 1) (toISOString W 1) (randomBytes16 W 2)
                         bookmark account domain db)
                  else if action = str ''delete'' then
                    Inr (Some (createDeleteMessage bookmark account domain db))
                  else Inr None)
           in case built of
                Inl e \<Rightarrow> \<lparr> o_db = db, o_sent = [], o_log = [], o_raised = Some e \<rparr>
              | Inr None \<Rightarrow>
                  \<lparr> o_db = db, o_sent = [], o_log = [LogText (str ''unsupported action!'')],
                    o_raised = None \<rparr>
              | Inr (Some (message, db')) \<Rightarrow>
                  (case deliver W message account domain followers of
                     (ds, e) \<Rightarrow>
                       \<lparr> o_db = db', o_sent = ds, o_log = [LogSending message], o_raised = e \<rparr>)))"

section \<open>The Collection Renderer and the actor document\<close>

datatype 'a response = Send nat jsstring | SendJson 'a | StatusOnly nat | Raises error

record 'a page =
  p_type :: jsstring
  p_totalItems :: nat
  p_partOf :: jsstring
  p_orderedItems :: "'a list option"
  p_id :: jsstring
  p_next :: "jsstring option"

record 'a collection =
  c_type :: jsstring
  c_totalItems :: nat
  c_id :: jsstring
  c_first :: "'a page"
  c_context :: "jsstring list"



text \<open>
  The handler of \<^verbatim>\<open>GET /:name/followers\<close>: an undefined value is the empty list, a
  null one parses to null, whose \<^verbatim>\<open>followers?.length || 0\<close> is 0.
\<close>

definition followers_route :: "handle \<Rightarrow> jsstring \<Rightarrow> jsstring \<Rightarrow> jsstring collection response" where
  "followers_route db domain name =
     (if name = [] then Send 400 (str ''Bad request.'')
      else
        (let followers = (case getFollowers db of
                            Undefined \<Rightarrow> Some []
                          | Null \<Rightarrow> None
                          | Val fs \<Rightarrow> Some fs);
             followersCollection = \<lparr>
               c_type = str ''OrderedCollection'',
               c_totalItems = (case followers of None \<Rightarrow> 0 | Some fs \<Rightarrow> length fs),
               c_id = str ''https://'' @ domain @ str ''/u/'' @ name @ str ''/followers'',
               c_first = \<lparr>
                 p_type = str ''OrderedCollectionPage'',
                 p_totalItems = (case followers of None \<Rightarrow> 0 | Some fs \<Rightarrow> length fs),
                 p_partOf = str ''https://'' @ domain @ str ''/u/'' @ name @ str ''/followers'',
                 p_orderedItems = followers,
                 p_id = str ''https://'' @ domain @ str ''/u/'' @ name @ str ''/followers?page=1'',
                 p_next = None \<rparr>,
               c_context = [str ''https://www.w3.org/ns/activitystreams''] \<rparr>
         in SendJson followersCollection))"

text \<open>
  The handler of \<^verbatim>\<open>GET /:name/following\<close>: \<^verbatim>\<open>(await db.getFollowing()) || "[]"\<close>.
\<close>

definition following_route :: "handle \<Rightarrow> jsstring \<Rightarrow> jsstring \<Rightarrow> jsstring collection response" where
  "following_route db domain name =
     (if name = [] then Send 400 (str ''Bad request.'')
      else
        (let following = (case getFollowing db of Val fs \<Rightarrow> fs | _ \<Rightarrow> []);
             followingCollection = \<lparr>
               c_type = str ''OrderedCollection'',
               c_totalItems = length following,
               c_id = str ''https://'' @ domain @ str ''/u/'' @ name @ str ''/following'',
               c_first = \<lparr>
                 p_type = str ''OrderedCollectionPage'',
                 p_totalItems = length following,
                 p_partOf = str ''https://'' @ domain @ str ''/u/'' @ name @ str ''/following'',
                 p_orderedItems = Some following,
                 p_id = str ''https://'' @ domain @ str ''/u/'' @ name @ str ''/following?page=1'',
                 p_next = None \<rparr>,
               c_context = [str ''https://www.w3.org/ns/activitystreams''] \<rparr>
         in SendJson followingCollection))"

text \<open>
  Modelled from the spec: \<^verbatim>\<open>bookmarksDb\<close> is not among the sources. The spec says the
  page size is the limit and the item offset is \<^verbatim>\<open>(page-1)*20\<close>: the bookmarks are a
  list, the count is its length, and \<^verbatim>\<open>getBookmarks(limit, offset)\<close> is the \<open>limit\<close>
  items after the first \<open>offset\<close>. An offset that is NaN or negative selects nothing
  here; the spec does not say.
\<close>

definition getBookmarkCount :: "bookmark list \<Rightarrow> nat" where
  "getBookmarkCount bookmarks = length bookmarks"

definition getBookmarks :: "nat \<Rightarrow> int option \<Rightarrow> bookmark list \<Rightarrow> bookmark list" where
  "getBookmarks limit offset bookmarks =
     (case offset of
        None \<Rightarrow> []
      | Some k \<Rightarrow> if k < 0 then [] else take limit (drop (nat k) bookmarks))"

text \<open>
  A request matched by the route \<^verbatim>\<open>/:name/outbox\<close>: Express fills \<^verbatim>\<open>req.params\<close>
  with the named segments of the route, here \<^verbatim>\<open>name\<close> alone, and \<^verbatim>\<open>req.query\<close> with
  the query string.
\<close>

record request =
  rq_name :: jsstring
  rq_query :: "(jsstring \<times> jsstring) list"

definition req_params :: "request \<Rightarrow> (jsstring \<times> jsstring) list" where
  "req_params req = [(str ''name'', rq_name req)]"

text \<open>
  The value of \<^verbatim>\<open>page\<close>: the number 1, or the non-empty string of the parameter.
  \<^verbatim>\<open>page < 1\<close> and \<^verbatim>\<open>page - 1\<close> convert a string to a number; \<^verbatim>\<open>page + 1\<close>
  appends \<^verbatim>\<open>1\<close> to a string.
\<close>

datatype page_value = PageNumber nat | PageString jsstring

definition page_number :: "world \<Rightarrow> page_value \<Rightarrow> int option" where
  "page_number W page = (case page of PageNumber n \<Rightarrow> Some (int n) | PageString s \<Rightarrow> ToNumber W s)"

definition page_text :: "page_value \<Rightarrow> jsstring" where
  "page_text page = (case page of PageNumber n \<Rightarrow> dec n | PageString s \<Rightarrow> s)"

definition page_plus_1_text :: "page_value \<Rightarrow> jsstring" where
  "page_plus_1_text page = (case page of PageNumber n \<Rightarrow> dec (n + 1) | PageString s \<Rightarrow> s @ str ''1'')"

text \<open>
  The handler of \<^verbatim>\<open>GET /:name/outbox\<close>; \<open>bookmarks\<close> is the bookmark store and
  \<open>account\<close> the configured account. The page is read from \<^verbatim>\<open>req.params.page\<close>.
  \<^verbatim>\<open>res.status(400)\<close> sets the status and sends nothing. The \<open>i\<close>-th note draws the
  \<open>i\<close>-th random bytes and date.
\<close>

definition outbox_route ::
  "world \<Rightarrow> bookmark list \<Rightarrow> jsstring \<Rightarrow> jsstring \<Rightarrow> request \<Rightarrow> note_object collection response" where
  "outbox_route W bookmarksDb account domain req =
     (let page = (case map_of (req_params req) (str ''page'') of
                    None \<Rightarrow> PageNumber 1
                  | Some s \<Rightarrow> if s = [] then PageNumber 1 else PageString s)
      in if (case page_number W page of None \<Rightarrow> False | Some n \<Rightarrow> n < 1) then StatusOnly 400
         else
           (let limit = 20;
                offset = map_option (\<lambda>n. (n - 1) * int limit) (page_number W page);
                totalBookmarkCount = getBookmarkCount bookmarksDb;
                totalPages = (totalBookmarkCount + limit - 1) div limit;
                bookmarks = getBookmarks limit offset bookmarksDb;
                messages = map (\<lambda>(i, b). createNoteObject (randomBytes16 W i) (toISOString W i)
                                             b account domain)
                               (enumerate 0 bookmarks);
                outboxCollection = \<lparr>
                  c_type = str ''OrderedCollection'',
                  c_totalItems = totalBookmarkCount,
                  c_id = str ''https://'' @ domain @ str ''/u/'' @ account @ str ''/outbox'',
                  c_first = \<lparr>
                    p_type = str ''OrderedCollectionPage'',
                    p_totalItems = length messages,
                    p_partOf = str ''https://'' @ domain @ str ''/u/'' @ account @ str ''/outbox'',
                    p_orderedItems = Some messages,
                    p_id = str ''https://'' @ domain @ str ''/u/'' @ account @ str ''/outbox?page='' @ page_text page,
                    p_next = Some (str ''https://'' @ domain @ str ''/u/'' @ account @ str ''/outbox?page=''
                                   @ page_plus_1_text page) \<rparr>,
                  c_context = [str ''https://www.w3.org/ns/activitystreams''] \<rparr>
            in SendJson outboxCollection))"

text \<open>The body of a response sent with \<^verbatim>\<open>res.json\<close>, if it was.\<close>

definition sent_json :: "'a response \<Rightarrow> 'a option" where
  "sent_json r = (case r of SendJson c \<Rightarrow> Some c | _ \<Rightarrow> None)"

section \<open>Example data\<close>

text \<open>
  Concrete inputs for the closed instances below: the bookmark of the first end-to-end
  scenario (with a description of three lines), a bookmark with a blank title and neither
  description nor tags, a bookmark without a title and with a description of one line,
  a platform whose signer accepts the key
  \<^verbatim>\<open>PEM\<close> only and whose network call fails, and a store with one account, whose
  actor record is a legacy one without \<^verbatim>\<open>followers\<close> and \<^verbatim>\<open>outbox\<close>. The example
  environment has federation enabled, knows the hosts of the two followers of the third
  end-to-end scenario, says that the first of them matches the handle
  \<^verbatim>\<open>@bad@evil.example\<close>, and converts strings of decimal digits to their number.
\<close>

definition example_bookmark :: bookmark where
  "example_bookmark = \<lparr> b_id = 1, b_url = str ''http://e.com'', b_title = Some (str ''E''),
     b_description = Some (str '' first'' @ [0x0A] @ str ''second'' @ [0x0A] @ str ''third ''),
     b_tags = Some (str ''#a #b'') \<rparr>"



definition example_net :: net where
  "example_net = \<lparr>
     JSON_stringify = (\<lambda>m. (str ''{}'')),
     sha256_base64 = (\<lambda>t. (str ''RBNvo1WzZ4oRRq0W9+hknpT7T8If536DEMBg9hyq/4o='')),
     sign_base64 = (\<lambda>key t. if key = str ''PEM'' then Inr (str ''signed('' @ t @ str '')'') else Inl SignError),
     toUTCString = str ''Tue, 03 Nov 2026 10:00:00 GMT'',
     fetch = (\<lambda>r. Inl NetworkError) \<rparr>"

definition example_account :: account_row where
  "example_account = \<lparr>
     acc_privkey = Some (str ''PEM''),
     acc_actor = Some [(str ''id'', JString (str ''https://ex.com/u/alice''))],
     acc_followers = Some [str ''https://evil.example/u/bad'', str ''https://good.example/u/x''],
     acc_following = None \<rparr>"

definition example_db :: handle where
  "example_db = Some \<lparr> accounts = [example_account], messages = [], permissions = [] \<rparr>"

definition example_activity :: activity where
  "example_activity = fst (createDeleteMessage example_bookmark (str ''alice'') (str ''ex.com'') example_db)"

definition decimal :: "jsstring \<Rightarrow> int option" where
  "decimal s =
     (if s \<noteq> [] \<and> list_all (\<lambda>c. 0x30 \<le> c \<and> c \<le> 0x39) s
      then Some (foldl (\<lambda>a c. 10 * a + (uint c - 48)) 0 s)
      else None)"

definition example_world :: world where
  "example_world = \<lparr>
     disabled = False,
     actorMatchesUsername =
       (\<lambda>actor username. username = Val (str ''@bad@evil.example'') \<and> actor = str ''https://evil.example/u/bad''),
     url_host =
       (\<lambda>u. if u = str ''https://evil.example/u/bad'' then Some (str ''evil.example'')
            else if u = str ''https://good.example/u/x'' then Some (str ''good.example'')
            else None),
     randomBytes16 = (\<lambda>k. 0x0123456789abcdef0123456789abcdef + of_nat k),
     toISOString = (\<lambda>k. (str ''2026-11-03T10:00:00.000Z'')),
     ToNumber = decimal \<rparr>"

definition blocked_db :: handle where
  "blocked_db = setPermissionsForBookmark 0 (Some []) (Some (str ''@bad@evil.example'')) example_db"

definition blocked_twice_db :: handle where
  "blocked_twice_db = setPermissionsForBookmark 1 (Some []) (Some (str ''@bad@evil.example'')) blocked_db"



definition twenty_five_bookmarks :: "bookmark list" where
  "twenty_five_bookmarks = replicate 25 example_bookmark"

definition page_2_request :: request where
  "page_2_request = \<lparr> rq_name = str ''alice'', rq_query = [(str ''page'', str ''2'')] \<rparr>"

definition follow_db :: handle where
  "follow_db = snd (createFollowMessage 0x0123456789abcdef0123456789abcdef (str ''alice'') (str ''ex.com'')
                      (str ''https://remote.example/u/bob'') example_db)"

definition bad_key_db :: handle where
  "bad_key_db =
     Some \<lparr> accounts = [example_account \<lparr> acc_privkey := Some (str ''not a key'') \<rparr>],
            messages = [], permissions = [] \<rparr>"

definition no_account_db :: handle where
  "no_account_db = Some \<lparr> accounts = [], messages = [], permissions = [] \<rparr>"


definition null_key_db :: handle where
  "null_key_db =
     Some \<lparr> accounts = [example_account \<lparr> acc_privkey := None \<rparr>],
            messages = [], permissions = [] \<rparr>"



section \<open>Facts about the string functions\<close>

lemma str_Nil [simp]: "str [] = []"
  by (simp add: str_def)

lemma str_Cons [simp]: "str (c # cs) = of_char c # str cs"
  by (simp add: str_def)

lemma str_append: "str (a @ b) = str a @ str b"
  by (simp add: str_def)

lemma of_char_word_inj: "(of_char c :: 16 word) = of_char d \<longleftrightarrow> c = d"
proof
  assume a: "(of_char c :: 16 word) = of_char d"
  have lt: "(of_char x :: nat) < 2 ^ 16" for x :: char
  proof -
    have "(2::nat) ^ 16 = 65536" by simp
    with nat_of_char_less_256 [of x] show ?thesis by linarith
  qed
  have "unat (of_char x :: 16 word) = of_char x" for x :: char
  proof (rule of_nat_inverse)
    show "word_of_nat (of_char x) = (of_char x :: 16 word)"
      by (rule of_nat_of_char)
    show "(of_char x :: nat) < 2 ^ LENGTH(16)"
      using lt [of x] by simp
  qed
  with a have "(of_char c :: nat) = of_char d"
    by metis
  then show "c = d" by simp
qed simp

lemma str_eq_iff [simp]: "str a = str b \<longleftrightarrow> a = b"
  unfolding str_def
  by (rule inj_map_eq_map) (simp add: inj_def of_char_word_inj)







lemma replace_first_prefix: "replace_first pat rep (pat @ rest) = rep @ rest"
proof (cases "pat @ rest")
  case Nil
  then show ?thesis by simp
next
  case (Cons a list)
  then have p: "prefix pat (a # list)"
    by (metis prefixI)
  have "replace_first pat rep (a # list) = rep @ drop (length pat) (a # list)"
    using p by simp
  also have "drop (length pat) (a # list) = rest"
    using Cons [symmetric] by simp
  finally show ?thesis
    using Cons by simp
qed

lemma hex_digit_is_hex: "n < 16 \<Longrightarrow> is_hex_char (hex_digit n)"
proof -
  assume "n < 16"
  then have "n < length (str ''0123456789abcdef'')" by simp
  then have "str ''0123456789abcdef'' ! n \<in> set (str ''0123456789abcdef'')"
    by (rule nth_mem)
  then show ?thesis
    unfolding is_hex_char_def hex_digit_def .
qed

lemma length_toString_hex: "length (toString_hex w) = 32"
  by (simp add: toString_hex_def)

lemma toString_hex_is_hex: "list_all is_hex_char (toString_hex w)"
proof -
  have "unat (take_bit 4 x) < 16" for x :: "128 word"
    using take_bit_nat_less_exp [of 4 "unat x"] by (simp add: unsigned_take_bit_eq)
  then show ?thesis
    by (simp add: toString_hex_def list_all_iff hex_digit_is_hex)
qed

section \<open>Facts about the builder, the broadcaster and the outbox\<close>

lemma hex_is_guid_char: "is_hex_char c \<Longrightarrow> is_guid_char c"
  by (auto simp: is_hex_char_def is_guid_char_def)

lemma permalink_match_found:
  "is_guid_char c \<Longrightarrow> permalink_match (pre @ str ''/m/'' @ c # rest) \<noteq> None"
  by (induction pre) auto

lemma getGuidFromPermalink_note:
  "\<exists>guid. getGuidFromPermalink (n_id (createNoteObject g d b account domain)) = Inr guid"
proof -
  obtain c rest where cr: "toString_hex g = c # rest"
    using length_toString_hex [of g] by (cases "toString_hex g") auto
  have c: "is_guid_char c"
    using toString_hex_is_hex [of g] cr by (simp add: hex_is_guid_char)
  have nid: "n_id (createNoteObject g d b account domain) = (str ''https://'' @ domain) @ str ''/m/'' @ c # rest"
    by (simp add: createNoteObject_def Let_def cr split: option.splits)
  have "permalink_match (n_id (createNoteObject g d b account domain)) \<noteq> None"
    unfolding nid using c by (rule permalink_match_found)
  then show ?thesis
    by (auto simp: getGuidFromPermalink_def split: option.splits)
qed

lemma createMessage_note:
  "\<exists>act db'. createMessage gc (createNoteObject g d b account domain) i account' domain' db
       = Inr (act, db')"
  using getGuidFromPermalink_note [of g d b account domain]
  by (auto simp: createMessage_def Let_def)

lemma createUpdateMessage_returns:
  "\<exists>act db'. createUpdateMessage g d gc b account domain db = Inr (act, db')"
  using createMessage_note [of gc g d b account domain "b_id b" account domain db]
  by (auto simp: createUpdateMessage_def Let_def split: js.splits)

lemma deliver_inboxes:
  "list_all (\<lambda>f. url_host W f \<noteq> None) followers \<Longrightarrow>
     map d_inbox (fst (deliver W message account domain followers)) = map (\<lambda>f. f @ str ''/inbox'') followers
     \<and> snd (deliver W message account domain followers) = None"
  by (induction followers) (auto simp: Let_def split: option.splits prod.splits)

text \<open>
  With federation enabled, a stored follower list, one of the three actions and followers
  whose URLs parse, a delivery is started to the inbox of every stored follower, in the
  stored order: neither the permission lists nor \<^verbatim>\<open>actorMatchesUsername\<close> have a say.
\<close>

lemma broadcastMessage_delivers_to_all:
  assumes "\<not> disabled W" and "getFollowers db = Val followers"
    and "action \<in> {(str ''create''), str ''update'', str ''delete''}"
    and "list_all (\<lambda>f. url_host W f \<noteq> None) followers"
  shows "map d_inbox (o_sent (broadcastMessage W b action db account domain))
           = map (\<lambda>f. f @ str ''/inbox'') followers"
proof -
  obtain act db' where built:
    "(if action = str ''create'' then
        map_sum id Some
          (createMessage (randomBytes16 W 1)
             (createNoteObject (randomBytes16 W 0) (toISOString W 0) b account domain)
             (b_id b) account domain db)
      else if action = str ''update'' then
        map_sum id Some
          (createUpdateMessage (randomBytes16 W 1) (toISOString W 1) (randomBytes16 W 2)
             b account domain db)
      else if action = str ''delete'' then
        Inr (Some (createDeleteMessage b account domain db))
      else Inr None) = Inr (Some (act, db'))"
    using assms(3)
      createMessage_note [of "randomBytes16 W 1" "randomBytes16 W 0" "toISOString W 0" b account
        domain "b_id b" account domain db]
      createUpdateMessage_returns [of "randomBytes16 W 1" "toISOString W 1" "randomBytes16 W 2"
        b account domain db]
    by (cases "createDeleteMessage b account domain db") auto
  obtain ds e where del: "deliver W act account domain followers = (ds, e)"
    by (cases "deliver W act account domain followers")
  have "map d_inbox ds = map (\<lambda>f. f @ str ''/inbox'') followers"
    using deliver_inboxes [OF assms(4), of act account domain] del by simp
  then show ?thesis
    unfolding broadcastMessage_def Let_def
    by (simp add: assms(1,2) built del del: str_Cons str_Nil)
qed


lemma blocklist_of_keeps_no_handle:
  "list_all (\<lambda>x. case x of Val e \<Rightarrow> \<not> handle_regex e | _ \<Rightarrow> True) (blocklist_of bp gp)"
  by (auto simp: blocklist_of_def list_all_iff split: option.splits js.splits)

lemma filter_blocked_keeps_all: "filter_blocked W blocklist followers = followers"
  by (simp add: filter_blocked_def forEach_def optional_some_def js_not_def)

lemma example_world_enabled: "\<not> disabled example_world"
  by (simp add: example_world_def)

lemma example_hosts:
  "list_all (\<lambda>f. url_host example_world f \<noteq> None)
     [str ''https://evil.example/u/bad'', str ''https://good.example/u/x'']"
  by (simp add: example_world_def)

lemma getFollowers_blocked_db:
  "getFollowers blocked_db = Val [str ''https://evil.example/u/bad'', str ''https://good.example/u/x'']"
  by (simp add: blocked_db_def setPermissionsForBookmark_def example_db_def example_account_def
      getFollowers_def column_def first_account_def)

lemma getFollowers_blocked_twice_db:
  "getFollowers blocked_twice_db = Val [str ''https://evil.example/u/bad'', str ''https://good.example/u/x'']"
  by (simp add: blocked_twice_db_def blocked_db_def setPermissionsForBookmark_def example_db_def
      example_account_def getFollowers_def column_def first_account_def)

lemma createDeleteMessage_example:
  "createDeleteMessage example_bookmark (str ''alice'') (str ''ex.com'') example_db =
     (\<lparr> a_context = ContextMany [str ''https://www.w3.org/ns/activitystreams'',
                                 str ''https://w3id.org/security/v1''],
        a_id = Some (str ''https://ex.com/m/undefined''),
        a_summary = None,
        a_type = str ''Delete'',
        a_actor = str ''https://ex.com/u/alice'',
        a_to = Some [str ''https://ex.com/u/alice/followers/'',
                     str ''https://www.w3.org/ns/activitystreams#Public''],
        a_object = ObjTombstone \<lparr> t_type = str ''Tombstone'', t_id = str ''https://ex.com/m/undefined'' \<rparr> \<rparr>,
      example_db)"
  by (simp add: createDeleteMessage_def Let_def findMessageGuid_def deleteMessage_def
      js_to_string_def example_db_def example_bookmark_def)

lemma broadcastMessage_undefined_followers:
  "\<not> disabled W \<Longrightarrow> first_account db = None \<Longrightarrow>
     broadcastMessage W b action db account domain =
       \<lparr> o_db = db, o_sent = [], o_log = [], o_raised = Some SyntaxError \<rparr>"
  by (simp add: broadcastMessage_def getFollowers_def column_def)

lemma dec_1: "dec 1 = str ''1''"
  by (simp add: dec.simps)

lemma dec_2: "dec 2 = str ''2''"
  by (simp add: dec.simps)

lemma dec_Suc_0: "dec (Suc 0) = str ''1''"
  by (simp add: dec.simps)

lemma dec_Suc_Suc_0: "dec (Suc (Suc 0)) = str ''2''"
  by (simp add: dec.simps)

lemma outbox_route_page_1:
  "outbox_route W bookmarksDb account domain req =
     SendJson \<lparr>
       c_type = str ''OrderedCollection'',
       c_totalItems = length bookmarksDb,
       c_id = str ''https://'' @ domain @ str ''/u/'' @ account @ str ''/outbox'',
       c_first = \<lparr>
         p_type = str ''OrderedCollectionPage'',
         p_totalItems = min (length bookmarksDb) 20,
         p_partOf = str ''https://'' @ domain @ str ''/u/'' @ account @ str ''/outbox'',
         p_orderedItems = Some (map (\<lambda>(i, b). createNoteObject (randomBytes16 W i) (toISOString W i)
                                                  b account domain)
                                    (enumerate 0 (take 20 bookmarksDb))),
         p_id = str ''https://'' @ domain @ str ''/u/'' @ account @ str ''/outbox?page=1'',
         p_next = Some (str ''https://'' @ domain @ str ''/u/'' @ account @ str ''/outbox?page=2'') \<rparr>,
       c_context = [str ''https://www.w3.org/ns/activitystreams''] \<rparr>"
  by (simp add: outbox_route_def req_params_def page_number_def page_text_def page_plus_1_text_def
      getBookmarkCount_def getBookmarks_def Let_def dec_1 dec_2 dec_Suc_0 dec_Suc_Suc_0)

lemma createUnfollowMessage_object:
  "fst (createUnfollowMessage like g account domain target db) = Some act \<Longrightarrow>
     a_type act = str ''Undo'' \<and> a_object act = ObjUndefined"
  by (auto simp: createUnfollowMessage_def Let_def array_message_def
      split: js.splits list.splits)


lemma deliver_started:
  "map d_inbox (fst (deliver W message account domain followers))
     = map (\<lambda>f. f @ str ''/inbox'') (takeWhile (\<lambda>f. url_host W f \<noteq> None) followers)
   \<and> snd (deliver W message account domain followers)
     = (if list_all (\<lambda>f. url_host W f \<noteq> None) followers then None else Some TypeError)"
  by (induction followers) (auto simp: Let_def split: option.splits prod.splits)

section \<open>C1: the blocklist and the deliveries\<close>

text \<open>
  C1 says that a follower matching a well-formed blocked entry is excluded from a
  broadcast. The code does not exclude anyone. In the third end-to-end scenario (the
  global permission row blocks \<^verbatim>\<open>@bad@evil.example\<close>, a well-formed handle that the
  first follower matches; the followers are \<^verbatim>\<open>https://evil.example/u/bad\<close> and
  \<^verbatim>\<open>https://good.example/u/x\<close>) a create is delivered to the inboxes of both, and
  it still is when the permission row of the bookmark blocks the handle as well.
\<close>

theorem broadcastMessage_blocked_follower_delivered:
  "handle_regex (str ''@bad@evil.example'')
   \<and> actorMatchesUsername example_world (str ''https://evil.example/u/bad'') (Val (str ''@bad@evil.example''))
   \<and> map_option p_blocked (getGlobalPermissions blocked_db) = Some (Some (str ''@bad@evil.example''))
   \<and> getFollowers blocked_db = Val [str ''https://evil.example/u/bad'', str ''https://good.example/u/x'']
   \<and> map d_inbox (o_sent (broadcastMessage example_world example_bookmark (str ''create'') blocked_db
         (str ''alice'') (str ''ex.com'')))
       = [str ''https://evil.example/u/bad/inbox'', str ''https://good.example/u/x/inbox'']
   \<and> map_option p_blocked (getPermissionsForBookmark (b_id example_bookmark) blocked_twice_db)
       = Some (Some (str ''@bad@evil.example''))
   \<and> map d_inbox (o_sent (broadcastMessage example_world example_bookmark (str ''create'') blocked_twice_db
         (str ''alice'') (str ''ex.com'')))
       = [str ''https://evil.example/u/bad/inbox'', str ''https://good.example/u/x/inbox'']"
proof -
  have wf: "handle_regex (str ''@bad@evil.example'')"
    by (simp add: handle_regex_def is_line_terminator_def)
  have m: "actorMatchesUsername example_world (str ''https://evil.example/u/bad'') (Val (str ''@bad@evil.example''))"
    by (simp add: example_world_def)
  have g: "map_option p_blocked (getGlobalPermissions blocked_db) = Some (Some (str ''@bad@evil.example''))"
    by (simp add: blocked_db_def setPermissionsForBookmark_def example_db_def getGlobalPermissions_def)
  have p: "map_option p_blocked (getPermissionsForBookmark (b_id example_bookmark) blocked_twice_db)
       = Some (Some (str ''@bad@evil.example''))"
    by (simp add: blocked_twice_db_def blocked_db_def setPermissionsForBookmark_def example_db_def
        getPermissionsForBookmark_def example_bookmark_def)
  have a: "str ''create'' \<in> {(str ''create''), str ''update'', str ''delete''}"
    by simp
  have s1: "map d_inbox (o_sent (broadcastMessage example_world example_bookmark (str ''create'') blocked_db
         (str ''alice'') (str ''ex.com'')))
       = [str ''https://evil.example/u/bad/inbox'', str ''https://good.example/u/x/inbox'']"
    using broadcastMessage_delivers_to_all [OF example_world_enabled getFollowers_blocked_db a example_hosts]
    by simp
  have s2: "map d_inbox (o_sent (broadcastMessage example_world example_bookmark (str ''create'') blocked_twice_db
         (str ''alice'') (str ''ex.com'')))
       = [str ''https://evil.example/u/bad/inbox'', str ''https://good.example/u/x/inbox'']"
    using broadcastMessage_delivers_to_all [OF example_world_enabled getFollowers_blocked_twice_db a example_hosts]
    by simp
  show ?thesis
    by (intro conjI wf m g getFollowers_blocked_db s1 p s2)
qed

section \<open>C2: a delete without a stored guid\<close>

text \<open>
  C2 says that a delete for a bookmark with no stored message guid emits nothing. The
  code emits a Delete: with no message row for the bookmark, \<^verbatim>\<open>findMessageGuid\<close> is
  undefined, and the broadcast delivers to every follower a Delete whose id, and whose
  Tombstone's id, is \<^verbatim>\<open>https://ex.com/m/undefined\<close>; the store is left as it was, no
  error is raised, and the only log line is the one that announces the sending.
\<close>

theorem broadcastMessage_delete_without_guid:
  "findMessageGuid (b_id example_bookmark) example_db = Undefined
   \<and> map (\<lambda>d. (d_inbox d, a_type (d_message d), a_id (d_message d), a_object (d_message d)))
        (o_sent (broadcastMessage example_world example_bookmark (str ''delete'') example_db (str ''alice'') (str ''ex.com'')))
       = [(str ''https://evil.example/u/bad/inbox'', str ''Delete'', Some (str ''https://ex.com/m/undefined''),
           ObjTombstone \<lparr> t_type = str ''Tombstone'', t_id = str ''https://ex.com/m/undefined'' \<rparr>),
          (str ''https://good.example/u/x/inbox'', str ''Delete'', Some (str ''https://ex.com/m/undefined''),
           ObjTombstone \<lparr> t_type = str ''Tombstone'', t_id = str ''https://ex.com/m/undefined'' \<rparr>)]
   \<and> o_db (broadcastMessage example_world example_bookmark (str ''delete'') example_db (str ''alice'') (str ''ex.com''))
       = example_db
   \<and> o_raised (broadcastMessage example_world example_bookmark (str ''delete'') example_db (str ''alice'') (str ''ex.com''))
       = None
   \<and> o_log (broadcastMessage example_world example_bookmark (str ''delete'') example_db (str ''alice'') (str ''ex.com''))
       = [LogSending (fst (createDeleteMessage example_bookmark (str ''alice'') (str ''ex.com'') example_db))]"
proof -
  have f: "getFollowers example_db = Val [str ''https://evil.example/u/bad'', str ''https://good.example/u/x'']"
    by (simp add: example_db_def example_account_def getFollowers_def column_def first_account_def)
  have g: "findMessageGuid (b_id example_bookmark) example_db = Undefined"
    by (simp add: findMessageGuid_def example_db_def)
  have h: "url_host example_world (str ''https://evil.example/u/bad'') = Some (str ''evil.example'')"
    "url_host example_world (str ''https://good.example/u/x'') = Some (str ''good.example'')"
    by (simp_all add: example_world_def)
  show ?thesis
    unfolding broadcastMessage_def Let_def
    by (simp add: example_world_enabled f g h createDeleteMessage_example str_append [symmetric]
        del: str_Cons str_Nil)
qed

section \<open>C3: the requested page of the outbox\<close>

text \<open>
  C3 says that the outbox honours the requested page. The code reads the page from the
  route parameters, which hold the name only, so the page is always 1: a request with
  \<^verbatim>\<open>?page=2\<close> and 25 bookmarks is answered with the first 20 items, a page id ending
  in \<^verbatim>\<open>?page=1\<close> and a next link ending in \<^verbatim>\<open>?page=2\<close>.
\<close>

theorem outbox_route_page_2:
  "map_of (rq_query page_2_request) (str ''page'') = Some (str ''2'')
   \<and> getBookmarkCount twenty_five_bookmarks = 25
   \<and> map_option (\<lambda>c. (map_option length (p_orderedItems (c_first c)), p_id (c_first c), p_next (c_first c)))
        (sent_json (outbox_route example_world twenty_five_bookmarks (str ''alice'') (str ''ex.com'') page_2_request))
       = Some (Some 20, str ''https://ex.com/u/alice/outbox?page=1'',
               Some (str ''https://ex.com/u/alice/outbox?page=2''))"
  by (simp add: outbox_route_page_1 sent_json_def page_2_request_def twenty_five_bookmarks_def
      getBookmarkCount_def)

section \<open>C4: totalItems of the collections\<close>

text \<open>
  C4 as stated fails for the outbox: with 25 bookmarks the top-level
  \<^verbatim>\<open>totalItems\<close> is 25 and the \<^verbatim>\<open>totalItems\<close> of \<^verbatim>\<open>first\<close> is 20.
\<close>

theorem outbox_totalItems_counterexample:
  "map_option (\<lambda>c. (c_totalItems c, p_totalItems (c_first c)))
     (sent_json (outbox_route example_world twenty_five_bookmarks (str ''alice'') (str ''ex.com'')
                   \<lparr> rq_name = str ''alice'', rq_query = [] \<rparr>))
   = Some (25, 20)"
  by (simp add: outbox_route_page_1 sent_json_def twenty_five_bookmarks_def)

text \<open>
  C4, amended. For every rendering of the followers or the following collection (a
  non-empty name), \<^verbatim>\<open>totalItems\<close> of the top-level collection equals
  \<^verbatim>\<open>totalItems\<close> of its first page. For every rendering of the outbox, the top-level
  \<^verbatim>\<open>totalItems\<close> is the total bookmark count, and \<^verbatim>\<open>totalItems\<close> of the first page
  is the number of its \<^verbatim>\<open>orderedItems\<close>, which is at most the top-level
  \<^verbatim>\<open>totalItems\<close> and at most the page size 20.
\<close>

theorem collections_totalItems:
  "(name \<noteq> [] \<longrightarrow>
      (\<exists>c. followers_route db domain name = SendJson c \<and> c_totalItems c = p_totalItems (c_first c)))
   \<and> (name \<noteq> [] \<longrightarrow>
      (\<exists>c. following_route db domain name = SendJson c \<and> c_totalItems c = p_totalItems (c_first c)))
   \<and> (\<exists>c items. outbox_route W bookmarksDb account domain req = SendJson c
         \<and> c_totalItems c = getBookmarkCount bookmarksDb
         \<and> p_orderedItems (c_first c) = Some items
         \<and> p_totalItems (c_first c) = length items
         \<and> length items \<le> c_totalItems c
         \<and> length items \<le> 20)"
proof (intro conjI impI)
  assume "name \<noteq> []"
  then show "\<exists>c. followers_route db domain name = SendJson c \<and> c_totalItems c = p_totalItems (c_first c)"
    by (simp add: followers_route_def Let_def)
next
  assume "name \<noteq> []"
  then show "\<exists>c. following_route db domain name = SendJson c \<and> c_totalItems c = p_totalItems (c_first c)"
    by (simp add: following_route_def Let_def)
next
  show "\<exists>c items. outbox_route W bookmarksDb account domain req = SendJson c
         \<and> c_totalItems c = getBookmarkCount bookmarksDb
         \<and> p_orderedItems (c_first c) = Some items
         \<and> p_totalItems (c_first c) = length items
         \<and> length items \<le> c_totalItems c
         \<and> length items \<le> 20"
    by (simp add: outbox_route_page_1 getBookmarkCount_def)
qed

text \<open>The amended C4 at the example store and at 25 bookmarks.\<close>

theorem collections_totalItems_witness:
  "str ''alice'' \<noteq> []
   \<and> map_option (\<lambda>c. (c_totalItems c, p_totalItems (c_first c)))
        (sent_json (followers_route example_db (str ''ex.com'') (str ''alice''))) = Some (2, 2)
   \<and> map_option (\<lambda>c. (c_totalItems c, p_totalItems (c_first c)))
        (sent_json (following_route example_db (str ''ex.com'') (str ''alice''))) = Some (0, 0)
   \<and> map_option (\<lambda>c. (c_totalItems c, p_totalItems (c_first c),
                        map_option length (p_orderedItems (c_first c))))
        (sent_json (outbox_route example_world twenty_five_bookmarks (str ''alice'') (str ''ex.com'')
                      page_2_request)) = Some (25, 20, Some 20)"
proof -
  have a: "str ''alice'' \<noteq> []" by simp
  note T = collections_totalItems [of "str ''alice''" example_db "str ''ex.com''" example_world
      twenty_five_bookmarks "str ''alice''" page_2_request]
  obtain c where c: "followers_route example_db (str ''ex.com'') (str ''alice'') = SendJson c"
      "c_totalItems c = p_totalItems (c_first c)"
    using T [THEN conjunct1, THEN mp, OF a] by blast
  have "c_totalItems c = 2"
    using c(1) by (auto simp: followers_route_def Let_def example_db_def example_account_def
        getFollowers_def column_def first_account_def)
  then have 1: "map_option (\<lambda>c. (c_totalItems c, p_totalItems (c_first c)))
        (sent_json (followers_route example_db (str ''ex.com'') (str ''alice''))) = Some (2, 2)"
    using c by (simp add: sent_json_def)
  obtain c' where c': "following_route example_db (str ''ex.com'') (str ''alice'') = SendJson c'"
      "c_totalItems c' = p_totalItems (c_first c')"
    using T [THEN conjunct2, THEN conjunct1, THEN mp, OF a] by blast
  have "c_totalItems c' = 0"
    using c'(1) by (auto simp: following_route_def Let_def example_db_def example_account_def
        getFollowing_def column_def first_account_def)
  then have 2: "map_option (\<lambda>c. (c_totalItems c, p_totalItems (c_first c)))
        (sent_json (following_route example_db (str ''ex.com'') (str ''alice''))) = Some (0, 0)"
    using c' by (simp add: sent_json_def)
  obtain o_c items where o: "outbox_route example_world twenty_five_bookmarks (str ''alice'') (str ''ex.com'')
        page_2_request = SendJson o_c"
      "c_totalItems o_c = getBookmarkCount twenty_five_bookmarks"
      "p_orderedItems (c_first o_c) = Some items"
      "p_totalItems (c_first o_c) = length items"
    using T [THEN conjunct2, THEN conjunct2] by blast
  have "length items = 20"
    using o(1,3) by (auto simp: outbox_route_page_1 twenty_five_bookmarks_def)
  then have 3: "map_option (\<lambda>c. (c_totalItems c, p_totalItems (c_first c),
                        map_option length (p_orderedItems (c_first c))))
        (sent_json (outbox_route example_world twenty_five_bookmarks (str ''alice'') (str ''ex.com'')
                      page_2_request)) = Some (25, 20, Some 20)"
    using o by (simp add: sent_json_def getBookmarkCount_def twenty_five_bookmarks_def)
  show ?thesis
    by (intro conjI a 1 2 3)
qed

section \<open>C5: the signed request\<close>

text \<open>
  C5 as stated fails for an inbox that does not begin with \<^verbatim>\<open>https://\<close> followed by the target
  domain: the request target is the inbox with the first occurrence of that text
  removed, which is the path of the inbox only for inboxes of that shape. For the
  follower \<^verbatim>\<open>http://good.example/u/x\<close> the signed first line is
  \<^verbatim>\<open>(request-target): post http://good.example/u/x/inbox\<close>, and for the inbox
  \<^verbatim>\<open>https://good.example:443/u/x/inbox\<close> the text left is \<^verbatim>\<open>:443/u/x/inbox\<close>.
\<close>

theorem signAndSend_request_target_counterexample:
  "s_requests (signAndSend example_net example_activity (str ''alice'') (str ''ex.com'') example_db
         (str ''good.example'') (str ''http://good.example/u/x/inbox'')) =
     [\<lparr> r_url = str ''http://good.example/u/x/inbox'',
        r_headers =
          [(str ''Host'', str ''good.example''),
           (str ''Date'', str ''Tue, 03 Nov 2026 10:00:00 GMT''),
           (str ''Digest'', str ''SHA-256=RBNvo1WzZ4oRRq0W9+hknpT7T8If536DEMBg9hyq/4o=''),
           (str ''Signature'',
              str ''keyId=\"https://ex.com/u/alice\",algorithm=\"rsa-sha256\",headers=\"(request-target) host date digest\",signature=\"signed((request-target): post http://good.example/u/x/inbox''
              @ [0x0A] @ str ''host: good.example''
              @ [0x0A] @ str ''date: Tue, 03 Nov 2026 10:00:00 GMT'' @ [0x0A]
              @ str ''digest: SHA-256=RBNvo1WzZ4oRRq0W9+hknpT7T8If536DEMBg9hyq/4o=)\"''),
           (str ''Content-Type'', str ''application/json''),
           (str ''Accept'', str ''application/json'')],
        r_method = str ''POST'',
        r_body = str ''{}'' \<rparr>]
   \<and> replace_first (str ''https://'' @ str ''good.example'') [] (str ''https://good.example:443/u/x/inbox'')
       = str '':443/u/x/inbox''"
proof -
  have k: "getPrivateKey n example_db = Val (str ''PEM'')" for n
    by (simp add: getPrivateKey_def column_def first_account_def example_db_def example_account_def)
  have f: "replace_first (str ''https://'' @ str ''good.example'') [] (str ''http://good.example/u/x/inbox'')
      = str ''http://good.example/u/x/inbox''"
    by simp
  have 1: "s_requests (signAndSend example_net example_activity (str ''alice'') (str ''ex.com'') example_db
         (str ''good.example'') (str ''http://good.example/u/x/inbox'')) =
     [\<lparr> r_url = str ''http://good.example/u/x/inbox'',
        r_headers =
          [(str ''Host'', str ''good.example''),
           (str ''Date'', str ''Tue, 03 Nov 2026 10:00:00 GMT''),
           (str ''Digest'', str ''SHA-256=RBNvo1WzZ4oRRq0W9+hknpT7T8If536DEMBg9hyq/4o=''),
           (str ''Signature'',
              str ''keyId=\"https://ex.com/u/alice\",algorithm=\"rsa-sha256\",headers=\"(request-target) host date digest\",signature=\"signed((request-target): post http://good.example/u/x/inbox''
              @ [0x0A] @ str ''host: good.example''
              @ [0x0A] @ str ''date: Tue, 03 Nov 2026 10:00:00 GMT'' @ [0x0A]
              @ str ''digest: SHA-256=RBNvo1WzZ4oRRq0W9+hknpT7T8If536DEMBg9hyq/4o=)\"''),
           (str ''Content-Type'', str ''application/json''),
           (str ''Accept'', str ''application/json'')],
        r_method = str ''POST'',
        r_body = str ''{}'' \<rparr>]"
    unfolding signAndSend_def Let_def k f
    by (simp add: example_net_def stringToSign_def)
  have 2: "replace_first (str ''https://'' @ str ''good.example'') [] (str ''https://good.example:443/u/x/inbox'')
       = str '':443/u/x/inbox''"
    by simp
  show ?thesis
    by (intro conjI 1 2)
qed

text \<open>
  C5, amended. For a delivery with a private key on record: when the platform's
  RSA-SHA256 signer returns a signature for the key and the four lines
  \<^verbatim>\<open>(request-target): post {target}\<close>, \<^verbatim>\<open>host: {targetDomain}\<close>,
  \<^verbatim>\<open>date: {date}\<close>, \<^verbatim>\<open>digest: SHA-256={digest}\<close> joined by newlines, where the target is
  the inbox with the first occurrence of \<^verbatim>\<open>https://{targetDomain}\<close> removed and the
  digest is the base64 SHA-256 of the JSON-serialized activity, then exactly one request
  is attempted: a POST to the inbox with the headers Host, Date, Digest, Signature,
  Content-Type and Accept in this order, the Signature header being
  \<^verbatim>\<open>keyId="https://{domain}/u/{name}",algorithm="rsa-sha256",headers="(request-target) host date digest",signature="{signature}"\<close>,
  and the JSON-serialized activity as body. The target is the path of the inbox whenever
  the inbox is \<^verbatim>\<open>https://{targetDomain}{inboxPath}\<close>.
\<close>

theorem signAndSend_request:
  assumes key: "getPrivateKey (name @ str ''@'' @ domain) db = Val key"
    and signed: "sign_base64 N key
        (str ''(request-target): post '' @ replace_first (str ''https://'' @ targetDomain) [] inbox
         @ [0x0A]
         @ str ''host: '' @ targetDomain @ [0x0A]
         @ str ''date: '' @ toUTCString N @ [0x0A]
         @ str ''digest: SHA-256='' @ sha256_base64 N (JSON_stringify N message)) = Inr signature"
  shows "s_requests (signAndSend N message name domain db targetDomain inbox) =
     [\<lparr> r_url = inbox,
        r_headers =
          [(str ''Host'', targetDomain),
           (str ''Date'', toUTCString N),
           (str ''Digest'', str ''SHA-256='' @ sha256_base64 N (JSON_stringify N message)),
           (str ''Signature'',
              str ''keyId=\"https://'' @ domain @ str ''/u/'' @ name
              @ str ''\",algorithm=\"rsa-sha256\",headers=\"(request-target) host date digest\",signature=\"''
              @ signature @ str ''\"''),
           (str ''Content-Type'', str ''application/json''),
           (str ''Accept'', str ''application/json'')],
        r_method = str ''POST'',
        r_body = JSON_stringify N message \<rparr>]
   \<and> (\<forall>inboxPath. inbox = str ''https://'' @ targetDomain @ inboxPath \<longrightarrow>
         replace_first (str ''https://'' @ targetDomain) [] inbox = inboxPath)"
proof (intro conjI allI impI)
  have sts: "sign_base64 N key
      (stringToSign (replace_first (str ''https://'' @ targetDomain) [] inbox) targetDomain
         (toUTCString N) (sha256_base64 N (JSON_stringify N message))) = Inr signature"
    using signed by (simp add: stringToSign_def)
  show "s_requests (signAndSend N message name domain db targetDomain inbox) =
     [\<lparr> r_url = inbox,
        r_headers =
          [(str ''Host'', targetDomain),
           (str ''Date'', toUTCString N),
           (str ''Digest'', str ''SHA-256='' @ sha256_base64 N (JSON_stringify N message)),
           (str ''Signature'',
              str ''keyId=\"https://'' @ domain @ str ''/u/'' @ name
              @ str ''\",algorithm=\"rsa-sha256\",headers=\"(request-target) host date digest\",signature=\"''
              @ signature @ str ''\"''),
           (str ''Content-Type'', str ''application/json''),
           (str ''Accept'', str ''application/json'')],
        r_method = str ''POST'',
        r_body = JSON_stringify N message \<rparr>]"
    using sts unfolding signAndSend_def Let_def key
    by (simp split: sum.splits prod.splits)
next
  fix inboxPath
  assume "inbox = str ''https://'' @ targetDomain @ inboxPath"
  then show "replace_first (str ''https://'' @ targetDomain) [] inbox = inboxPath"
    using replace_first_prefix [of "str ''https://'' @ targetDomain" "[]" inboxPath]
    by simp
qed

text \<open>The amended C5 at the example store and platform.\<close>

theorem signAndSend_request_witness:
  "getPrivateKey (str ''alice'' @ str ''@'' @ str ''ex.com'') example_db = Val (str ''PEM'')
   \<and> str ''https://good.example/u/x/inbox'' = str ''https://'' @ str ''good.example'' @ str ''/u/x/inbox''
   \<and> replace_first (str ''https://'' @ str ''good.example'') [] (str ''https://good.example/u/x/inbox'')
       = str ''/u/x/inbox''
   \<and> sign_base64 example_net (str ''PEM'')
        (str ''(request-target): post ''
         @ replace_first (str ''https://'' @ str ''good.example'') [] (str ''https://good.example/u/x/inbox'')
         @ [0x0A]
         @ str ''host: '' @ str ''good.example'' @ [0x0A]
         @ str ''date: '' @ toUTCString example_net @ [0x0A]
         @ str ''digest: SHA-256='' @ sha256_base64 example_net (JSON_stringify example_net example_activity))
       = Inr (str ''signed((request-target): post /u/x/inbox'' @ [0x0A] @ str ''host: good.example''
              @ [0x0A] @ str ''date: Tue, 03 Nov 2026 10:00:00 GMT'' @ [0x0A]
              @ str ''digest: SHA-256=RBNvo1WzZ4oRRq0W9+hknpT7T8If536DEMBg9hyq/4o=)'')
   \<and> s_requests (signAndSend example_net example_activity (str ''alice'') (str ''ex.com'') example_db
         (str ''good.example'') (str ''https://good.example/u/x/inbox'')) =
     [\<lparr> r_url = str ''https://good.example/u/x/inbox'',
        r_headers =
          [(str ''Host'', str ''good.example''),
           (str ''Date'', str ''Tue, 03 Nov 2026 10:00:00 GMT''),
           (str ''Digest'', str ''SHA-256=RBNvo1WzZ4oRRq0W9+hknpT7T8If536DEMBg9hyq/4o=''),
           (str ''Signature'',
              str ''keyId=\"https://ex.com/u/alice\",algorithm=\"rsa-sha256\",headers=\"(request-target) host date digest\",signature=\"signed((request-target): post /u/x/inbox''
              @ [0x0A] @ str ''host: good.example''
              @ [0x0A] @ str ''date: Tue, 03 Nov 2026 10:00:00 GMT'' @ [0x0A]
              @ str ''digest: SHA-256=RBNvo1WzZ4oRRq0W9+hknpT7T8If536DEMBg9hyq/4o=)\"''),
           (str ''Content-Type'', str ''application/json''),
           (str ''Accept'', str ''application/json'')],
        r_method = str ''POST'',
        r_body = str ''{}'' \<rparr>]"
proof -
  have k: "getPrivateKey (str ''alice'' @ str ''@'' @ str ''ex.com'') example_db = Val (str ''PEM'')"
    by (simp add: getPrivateKey_def column_def first_account_def example_db_def example_account_def)
  have i: "str ''https://good.example/u/x/inbox'' = str ''https://'' @ str ''good.example'' @ str ''/u/x/inbox''"
    by simp
  have s: "sign_base64 example_net (str ''PEM'')
        (str ''(request-target): post ''
         @ replace_first (str ''https://'' @ str ''good.example'') [] (str ''https://good.example/u/x/inbox'')
         @ [0x0A]
         @ str ''host: '' @ str ''good.example'' @ [0x0A]
         @ str ''date: '' @ toUTCString example_net @ [0x0A]
         @ str ''digest: SHA-256='' @ sha256_base64 example_net (JSON_stringify example_net example_activity))
       = Inr (str ''signed((request-target): post /u/x/inbox'' @ [0x0A] @ str ''host: good.example''
              @ [0x0A] @ str ''date: Tue, 03 Nov 2026 10:00:00 GMT'' @ [0x0A]
              @ str ''digest: SHA-256=RBNvo1WzZ4oRRq0W9+hknpT7T8If536DEMBg9hyq/4o=)'')"
    by (simp add: example_net_def)
  note T = signAndSend_request [OF k s]
  have p: "replace_first (str ''https://'' @ str ''good.example'') [] (str ''https://good.example/u/x/inbox'')
       = str ''/u/x/inbox''"
    using T [THEN conjunct2, THEN spec, THEN mp, OF i] .
  have r: "s_requests (signAndSend example_net example_activity (str ''alice'') (str ''ex.com'') example_db
         (str ''good.example'') (str ''https://good.example/u/x/inbox'')) =
     [\<lparr> r_url = str ''https://good.example/u/x/inbox'',
        r_headers =
          [(str ''Host'', str ''good.example''),
           (str ''Date'', str ''Tue, 03 Nov 2026 10:00:00 GMT''),
           (str ''Digest'', str ''SHA-256=RBNvo1WzZ4oRRq0W9+hknpT7T8If536DEMBg9hyq/4o=''),
           (str ''Signature'',
              str ''keyId=\"https://ex.com/u/alice\",algorithm=\"rsa-sha256\",headers=\"(request-target) host date digest\",signature=\"signed((request-target): post /u/x/inbox''
              @ [0x0A] @ str ''host: good.example''
              @ [0x0A] @ str ''date: Tue, 03 Nov 2026 10:00:00 GMT'' @ [0x0A]
              @ str ''digest: SHA-256=RBNvo1WzZ4oRRq0W9+hknpT7T8If536DEMBg9hyq/4o=)\"''),
           (str ''Content-Type'', str ''application/json''),
           (str ''Accept'', str ''application/json'')],
        r_method = str ''POST'',
        r_body = str ''{}'' \<rparr>]"
    using T [THEN conjunct1] by (simp add: example_net_def)
  show ?thesis
    by (intro conjI k i p s r)
qed

section \<open>C6: the object of an Undo\<close>

text \<open>
  C6 says that the Undo wraps the most recently inserted matching Follow. The code reads
  \<^verbatim>\<open>.message\<close> of the array \<^verbatim>\<open>followMessages.slice(-1)\<close>: with one persisted
  Follow of the target, which \<^verbatim>\<open>findMessage\<close> returns, the result is an Undo whose
  object is undefined.
\<close>

theorem createUnfollowMessage_object_undefined:
  "findMessage (\<lambda>pattern m. True) (str ''https://remote.example/u/bob'') follow_db =
     Val [\<lparr> m_guid = str ''0123456789abcdef0123456789abcdef'',
            m_message = Some (StoredFollow \<lparr>
              f_context = str ''https://www.w3.org/ns/activitystreams'',
              f_id = str ''0123456789abcdef0123456789abcdef'',
              f_type = str ''Follow'',
              f_actor = str ''https://ex.com/u/alice'',
              f_object = str ''https://remote.example/u/bob'' \<rparr>),
            m_bookmark_id = None \<rparr>]
   \<and> fst (createUnfollowMessage (\<lambda>pattern m. True) 0xff (str ''alice'') (str ''ex.com'')
            (str ''https://remote.example/u/bob'') follow_db) =
       Some \<lparr> a_context = ContextOne (str ''https://www.w3.org/ns/activitystreams''),
              a_id = Some (str ''000000000000000000000000000000ff''),
              a_summary = None,
              a_type = str ''Undo'',
              a_actor = str ''ex.com/u/alice'',
              a_to = None,
              a_object = ObjUndefined \<rparr>"
proof -
  have hx: "toString_hex 0x0123456789abcdef0123456789abcdef = str ''0123456789abcdef0123456789abcdef''"
    by (simp add: toString_hex_def hex_digit_def upt_rec drop_bit_eq_div take_bit_eq_mod)
  have hf: "toString_hex 0xff = str ''000000000000000000000000000000ff''"
    by (simp add: toString_hex_def hex_digit_def upt_rec drop_bit_eq_div take_bit_eq_mod)
  have db: "follow_db = Some \<lparr> accounts = [example_account],
      messages = [\<lparr> m_guid = str ''0123456789abcdef0123456789abcdef'',
            m_message = Some (StoredFollow \<lparr>
              f_context = str ''https://www.w3.org/ns/activitystreams'',
              f_id = str ''0123456789abcdef0123456789abcdef'',
              f_type = str ''Follow'',
              f_actor = str ''https://ex.com/u/alice'',
              f_object = str ''https://remote.example/u/bob'' \<rparr>),
            m_bookmark_id = None \<rparr>],
      permissions = [] \<rparr>"
    by (simp add: follow_db_def createFollowMessage_def Let_def hx insertMessage_def example_db_def)
  have 1: "findMessage (\<lambda>pattern m. True) (str ''https://remote.example/u/bob'') follow_db =
     Val [\<lparr> m_guid = str ''0123456789abcdef0123456789abcdef'',
            m_message = Some (StoredFollow \<lparr>
              f_context = str ''https://www.w3.org/ns/activitystreams'',
              f_id = str ''0123456789abcdef0123456789abcdef'',
              f_type = str ''Follow'',
              f_actor = str ''https://ex.com/u/alice'',
              f_object = str ''https://remote.example/u/bob'' \<rparr>),
            m_bookmark_id = None \<rparr>]"
    by (simp add: db findMessage_def)
  have 2: "fst (createUnfollowMessage (\<lambda>pattern m. True) 0xff (str ''alice'') (str ''ex.com'')
            (str ''https://remote.example/u/bob'') follow_db) =
       Some \<lparr> a_context = ContextOne (str ''https://www.w3.org/ns/activitystreams''),
              a_id = Some (str ''000000000000000000000000000000ff''),
              a_summary = None,
              a_type = str ''Undo'',
              a_actor = str ''ex.com/u/alice'',
              a_to = None,
              a_object = ObjUndefined \<rparr>"
    unfolding createUnfollowMessage_def Let_def 1
    by (simp add: is_follow_of_def hf array_message_def)
  show ?thesis
    by (intro conjI 1 2)
qed

section \<open>C7: a broadcast without followers\<close>




section \<open>C8: the note built for a bookmark\<close>




section \<open>C9: errors of a delivery\<close>

text \<open>
  C9 as stated fails for a signature error: with a key on record that the signer
  rejects, \<^verbatim>\<open>signAndSend\<close> raises the signer's error to its caller and logs nothing.
\<close>

theorem signAndSend_signature_error_counterexample:
  "getPrivateKey (str ''alice'' @ str ''@'' @ str ''ex.com'') bad_key_db = Val (str ''not a key'')
   \<and> signAndSend example_net example_activity (str ''alice'') (str ''ex.com'') bad_key_db
        (str ''good.example'') (str ''https://good.example/u/x/inbox'')
       = \<lparr> s_requests = [], s_log = [], s_raised = Some SignError \<rparr>"
proof -
  have k: "getPrivateKey (str ''alice'' @ str ''@'' @ str ''ex.com'') bad_key_db = Val (str ''not a key'')"
    by (simp add: getPrivateKey_def column_def first_account_def bad_key_db_def example_account_def)
  have "signAndSend example_net example_activity (str ''alice'') (str ''ex.com'') bad_key_db
        (str ''good.example'') (str ''https://good.example/u/x/inbox'')
       = \<lparr> s_requests = [], s_log = [], s_raised = Some SignError \<rparr>"
    unfolding signAndSend_def Let_def k
    by (simp add: example_net_def)
  with k show ?thesis by simp
qed

text \<open>
  C9, amended. If the key read is undefined, \<^verbatim>\<open>signAndSend\<close> attempts no network
  call, logs that no private key was found and raises nothing. If a key is on record and
  the signer returns a signature, exactly one network call is attempted and nothing is
  raised to the caller, whatever the call does; an error of the call is logged. If the
  signer raises an error, that error is raised to the caller, with no network call and
  no log line; so it is for a null key, which the signer refuses. The loop of the
  broadcaster starts one call for each follower, in stored order, up to the first
  follower whose URL does not parse, whatever the calls do; there it ends with a
  TypeError, and it ends without an error when every URL parses.
\<close>

theorem signAndSend_errors:
  "(getPrivateKey (name @ str ''@'' @ domain) db = Undefined \<longrightarrow>
      signAndSend N message name domain db targetDomain inbox =
        \<lparr> s_requests = [],
          s_log = [LogText (str ''No private key found for '' @ name @ str ''.'')],
          s_raised = None \<rparr>)
   \<and> (\<forall>key signature.
        getPrivateKey (name @ str ''@'' @ domain) db = Val key
        \<and> sign_base64 N key
            (stringToSign (replace_first (str ''https://'' @ targetDomain) [] inbox) targetDomain
               (toUTCString N) (sha256_base64 N (JSON_stringify N message))) = Inr signature
        \<longrightarrow> s_raised (signAndSend N message name domain db targetDomain inbox) = None
          \<and> length (s_requests (signAndSend N message name domain db targetDomain inbox)) = 1
          \<and> (\<forall>e. fetch N (hd (s_requests (signAndSend N message name domain db targetDomain inbox)))
                    = Inl e
                \<longrightarrow> s_log (signAndSend N message name domain db targetDomain inbox)
                    = [LogError e, LogStacktrace e]))
   \<and> (\<forall>key e.
        getPrivateKey (name @ str ''@'' @ domain) db = Val key
        \<and> sign_base64 N key
            (stringToSign (replace_first (str ''https://'' @ targetDomain) [] inbox) targetDomain
               (toUTCString N) (sha256_base64 N (JSON_stringify N message))) = Inl e
        \<longrightarrow> signAndSend N message name domain db targetDomain inbox
            = \<lparr> s_requests = [], s_log = [], s_raised = Some e \<rparr>)
   \<and> (getPrivateKey (name @ str ''@'' @ domain) db = Null \<longrightarrow>
        signAndSend N message name domain db targetDomain inbox
          = \<lparr> s_requests = [], s_log = [], s_raised = Some KeyRequiredError \<rparr>)
   \<and> map d_inbox (fst (deliver W message name domain followers))
       = map (\<lambda>f. f @ str ''/inbox'') (takeWhile (\<lambda>f. url_host W f \<noteq> None) followers)
   \<and> snd (deliver W message name domain followers)
       = (if list_all (\<lambda>f. url_host W f \<noteq> None) followers then None else Some TypeError)"
proof (intro conjI allI impI)
  assume "getPrivateKey (name @ str ''@'' @ domain) db = Undefined"
  then show "signAndSend N message name domain db targetDomain inbox =
        \<lparr> s_requests = [],
          s_log = [LogText (str ''No private key found for '' @ name @ str ''.'')],
          s_raised = None \<rparr>"
    by (simp add: signAndSend_def Let_def)
next
  fix key signature
  assume a: "getPrivateKey (name @ str ''@'' @ domain) db = Val key
        \<and> sign_base64 N key
            (stringToSign (replace_first (str ''https://'' @ targetDomain) [] inbox) targetDomain
               (toUTCString N) (sha256_base64 N (JSON_stringify N message))) = Inr signature"
  show "s_raised (signAndSend N message name domain db targetDomain inbox) = None"
    using a by (simp add: signAndSend_def Let_def split: sum.splits prod.splits)
  show "length (s_requests (signAndSend N message name domain db targetDomain inbox)) = 1"
    using a by (simp add: signAndSend_def Let_def split: sum.splits prod.splits)
  fix e
  assume "fetch N (hd (s_requests (signAndSend N message name domain db targetDomain inbox))) = Inl e"
  then show "s_log (signAndSend N message name domain db targetDomain inbox)
                    = [LogError e, LogStacktrace e]"
    using a by (simp add: signAndSend_def Let_def split: sum.splits prod.splits)
next
  fix key e
  assume "getPrivateKey (name @ str ''@'' @ domain) db = Val key
        \<and> sign_base64 N key
            (stringToSign (replace_first (str ''https://'' @ targetDomain) [] inbox) targetDomain
               (toUTCString N) (sha256_base64 N (JSON_stringify N message))) = Inl e"
  then show "signAndSend N message name domain db targetDomain inbox
            = \<lparr> s_requests = [], s_log = [], s_raised = Some e \<rparr>"
    by (simp add: signAndSend_def Let_def)
next
  assume "getPrivateKey (name @ str ''@'' @ domain) db = Null"
  then show "signAndSend N message name domain db targetDomain inbox
          = \<lparr> s_requests = [], s_log = [], s_raised = Some KeyRequiredError \<rparr>"
    by (simp add: signAndSend_def Let_def)
next
  show "map d_inbox (fst (deliver W message name domain followers))
       = map (\<lambda>f. f @ str ''/inbox'') (takeWhile (\<lambda>f. url_host W f \<noteq> None) followers)"
    using deliver_started [of W message name domain followers] by (rule conjunct1)
  show "snd (deliver W message name domain followers)
       = (if list_all (\<lambda>f. url_host W f \<noteq> None) followers then None else Some TypeError)"
    using deliver_started [of W message name domain followers] by (rule conjunct2)
qed

text \<open>
  The amended C9 at a store without an account, at the example store (the network call
  fails), at a store whose key the signer rejects, at a store with a null key, at three
  followers the second of which is no URL, and at the two example followers.
\<close>

theorem signAndSend_errors_witness:
  "getPrivateKey (str ''alice'' @ str ''@'' @ str ''ex.com'') no_account_db = Undefined
   \<and> signAndSend example_net example_activity (str ''alice'') (str ''ex.com'') no_account_db
        (str ''good.example'') (str ''https://good.example/u/x/inbox'')
       = \<lparr> s_requests = [], s_log = [LogText (str ''No private key found for alice.'')],
           s_raised = None \<rparr>
   \<and> getPrivateKey (str ''alice'' @ str ''@'' @ str ''ex.com'') example_db = Val (str ''PEM'')
   \<and> s_raised (signAndSend example_net example_activity (str ''alice'') (str ''ex.com'') example_db
        (str ''good.example'') (str ''https://good.example/u/x/inbox'')) = None
   \<and> length (s_requests (signAndSend example_net example_activity (str ''alice'') (str ''ex.com'')
        example_db (str ''good.example'') (str ''https://good.example/u/x/inbox''))) = 1
   \<and> s_log (signAndSend example_net example_activity (str ''alice'') (str ''ex.com'') example_db
        (str ''good.example'') (str ''https://good.example/u/x/inbox''))
       = [LogError NetworkError, LogStacktrace NetworkError]
   \<and> getPrivateKey (str ''alice'' @ str ''@'' @ str ''ex.com'') bad_key_db = Val (str ''not a key'')
   \<and> s_raised (signAndSend example_net example_activity (str ''alice'') (str ''ex.com'') bad_key_db
        (str ''good.example'') (str ''https://good.example/u/x/inbox'')) = Some SignError
   \<and> getPrivateKey (str ''alice'' @ str ''@'' @ str ''ex.com'') null_key_db = Null
   \<and> signAndSend example_net example_activity (str ''alice'') (str ''ex.com'') null_key_db
        (str ''good.example'') (str ''https://good.example/u/x/inbox'')
       = \<lparr> s_requests = [], s_log = [], s_raised = Some KeyRequiredError \<rparr>
   \<and> url_host example_world (str ''not a url'') = None
   \<and> map d_inbox (fst (deliver example_world example_activity (str ''alice'') (str ''ex.com'')
        [str ''https://good.example/u/x'', str ''not a url'', str ''https://evil.example/u/bad'']))
       = [str ''https://good.example/u/x/inbox'']
   \<and> snd (deliver example_world example_activity (str ''alice'') (str ''ex.com'')
        [str ''https://good.example/u/x'', str ''not a url'', str ''https://evil.example/u/bad''])
       = Some TypeError
   \<and> map d_inbox (fst (deliver example_world example_activity (str ''alice'') (str ''ex.com'')
        [str ''https://evil.example/u/bad'', str ''https://good.example/u/x'']))
       = [str ''https://evil.example/u/bad/inbox'', str ''https://good.example/u/x/inbox'']
   \<and> snd (deliver example_world example_activity (str ''alice'') (str ''ex.com'')
        [str ''https://evil.example/u/bad'', str ''https://good.example/u/x'']) = None"
proof -
  note T = signAndSend_errors [where name = "str ''alice''" and domain = "str ''ex.com''"
      and N = example_net and message = example_activity and targetDomain = "str ''good.example''"
      and inbox = "str ''https://good.example/u/x/inbox''" and W = example_world]
  have u: "getPrivateKey (str ''alice'' @ str ''@'' @ str ''ex.com'') no_account_db = Undefined"
    by (simp add: getPrivateKey_def column_def first_account_def no_account_db_def)
  have 1: "signAndSend example_net example_activity (str ''alice'') (str ''ex.com'') no_account_db
        (str ''good.example'') (str ''https://good.example/u/x/inbox'')
       = \<lparr> s_requests = [], s_log = [LogText (str ''No private key found for alice.'')],
           s_raised = None \<rparr>"
    using T [where db = no_account_db and followers = "[]", THEN conjunct1, THEN mp, OF u] by simp
  have k: "getPrivateKey (str ''alice'' @ str ''@'' @ str ''ex.com'') example_db = Val (str ''PEM'')"
    by (simp add: getPrivateKey_def column_def first_account_def example_db_def example_account_def)
  have sg: "\<exists>signature. sign_base64 example_net (str ''PEM'')
            (stringToSign (replace_first (str ''https://'' @ str ''good.example'') []
                 (str ''https://good.example/u/x/inbox''))
               (str ''good.example'') (toUTCString example_net)
               (sha256_base64 example_net (JSON_stringify example_net example_activity))) = Inr signature"
    by (simp add: example_net_def)
  have ok: "s_raised (signAndSend example_net example_activity (str ''alice'') (str ''ex.com'') example_db
        (str ''good.example'') (str ''https://good.example/u/x/inbox'')) = None
      \<and> length (s_requests (signAndSend example_net example_activity (str ''alice'') (str ''ex.com'')
        example_db (str ''good.example'') (str ''https://good.example/u/x/inbox''))) = 1
      \<and> (\<forall>e. fetch example_net (hd (s_requests (signAndSend example_net example_activity (str ''alice'')
                  (str ''ex.com'') example_db (str ''good.example'')
                  (str ''https://good.example/u/x/inbox'')))) = Inl e
            \<longrightarrow> s_log (signAndSend example_net example_activity (str ''alice'') (str ''ex.com'') example_db
                  (str ''good.example'') (str ''https://good.example/u/x/inbox''))
                = [LogError e, LogStacktrace e])"
    using T [where db = example_db and followers = "[]", THEN conjunct2, THEN conjunct1] k sg by blast
  have f: "fetch example_net r = Inl NetworkError" for r
    by (simp add: example_net_def)
  have 2: "s_log (signAndSend example_net example_activity (str ''alice'') (str ''ex.com'') example_db
        (str ''good.example'') (str ''https://good.example/u/x/inbox''))
       = [LogError NetworkError, LogStacktrace NetworkError]"
    using ok f by blast
  have b: "getPrivateKey (str ''alice'' @ str ''@'' @ str ''ex.com'') bad_key_db = Val (str ''not a key'')"
    by (simp add: getPrivateKey_def column_def first_account_def bad_key_db_def example_account_def)
  have sb: "sign_base64 example_net (str ''not a key'')
            (stringToSign (replace_first (str ''https://'' @ str ''good.example'') []
                 (str ''https://good.example/u/x/inbox''))
               (str ''good.example'') (toUTCString example_net)
               (sha256_base64 example_net (JSON_stringify example_net example_activity))) = Inl SignError"
    by (simp add: example_net_def)
  have "signAndSend example_net example_activity (str ''alice'') (str ''ex.com'') bad_key_db
        (str ''good.example'') (str ''https://good.example/u/x/inbox'')
       = \<lparr> s_requests = [], s_log = [], s_raised = Some SignError \<rparr>"
    using T [where db = bad_key_db and followers = "[]", THEN conjunct2, THEN conjunct2, THEN conjunct1]
      b sb by blast
  then have 3: "s_raised (signAndSend example_net example_activity (str ''alice'') (str ''ex.com'')
        bad_key_db (str ''good.example'') (str ''https://good.example/u/x/inbox'')) = Some SignError"
    by simp
  have nk: "getPrivateKey (str ''alice'' @ str ''@'' @ str ''ex.com'') null_key_db = Null"
    by (simp add: getPrivateKey_def column_def first_account_def null_key_db_def example_account_def)
  have 4: "signAndSend example_net example_activity (str ''alice'') (str ''ex.com'') null_key_db
        (str ''good.example'') (str ''https://good.example/u/x/inbox'')
       = \<lparr> s_requests = [], s_log = [], s_raised = Some KeyRequiredError \<rparr>"
    using T [where db = null_key_db and followers = "[]", THEN conjunct2, THEN conjunct2,
        THEN conjunct2, THEN conjunct1, THEN mp, OF nk] .
  have h: "url_host example_world (str ''not a url'') = None"
    by (simp add: example_world_def)
  note L = T [where db = example_db
      and followers = "[str ''https://good.example/u/x'', str ''not a url'', str ''https://evil.example/u/bad'']",
      THEN conjunct2, THEN conjunct2, THEN conjunct2, THEN conjunct2]
  have 5: "map d_inbox (fst (deliver example_world example_activity (str ''alice'') (str ''ex.com'')
        [str ''https://good.example/u/x'', str ''not a url'', str ''https://evil.example/u/bad'']))
       = [str ''https://good.example/u/x/inbox'']"
    using L [THEN conjunct1] by (simp add: example_world_def)
  have 6: "snd (deliver example_world example_activity (str ''alice'') (str ''ex.com'')
        [str ''https://good.example/u/x'', str ''not a url'', str ''https://evil.example/u/bad''])
       = Some TypeError"
    using L [THEN conjunct2] by (simp add: example_world_def)
  note M = T [where db = example_db
      and followers = "[str ''https://evil.example/u/bad'', str ''https://good.example/u/x'']",
      THEN conjunct2, THEN conjunct2, THEN conjunct2, THEN conjunct2]
  have 7: "map d_inbox (fst (deliver example_world example_activity (str ''alice'') (str ''ex.com'')
        [str ''https://evil.example/u/bad'', str ''https://good.example/u/x'']))
       = [str ''https://evil.example/u/bad/inbox'', str ''https://good.example/u/x/inbox'']"
    using M [THEN conjunct1] by (simp add: example_world_def)
  have 8: "snd (deliver example_world example_activity (str ''alice'') (str ''ex.com'')
        [str ''https://evil.example/u/bad'', str ''https://good.example/u/x'']) = None"
    using M [THEN conjunct2] by (simp add: example_world_def)
  show ?thesis
    by (intro conjI u 1 k ok [THEN conjunct1] ok [THEN conjunct2, THEN conjunct1] 2 b 3 nk 4 h
        5 6 7 8)
qed

section \<open>C10: the actor document and the requested name\<close>




end
